theory Spec2Isabelle
  imports Main "HOL-Library.List_Lexorder"
begin

section \<open>Text as Python sees it\<close>

text \<open>
  A Python \<open>str\<close> is a sequence of code points. The model takes the code points below 256,
  one \<open>char\<close> each; \<open>str.isspace\<close>, \<open>str.lower\<close> and \<open>str.isdigit\<close> are written out for
  that range.
\<close>

definition is_space :: "char \<Rightarrow> bool" where
  "is_space c =
     (let n = (of_char c :: nat)
      in (9 \<le> n \<and> n \<le> 13) \<or> (28 \<le> n \<and> n \<le> 32) \<or> n = 133 \<or> n = 160)"

definition lower_char :: "char \<Rightarrow> char" where
  "lower_char c =
     (let n = (of_char c :: nat)
      in if (65 \<le> n \<and> n \<le> 90) \<or> (192 \<le> n \<and> n \<le> 222 \<and> n \<noteq> 215)
         then char_of (n + 32) else c)"

definition is_digit_char :: "char \<Rightarrow> bool" where
  "is_digit_char c =
     (let n = (of_char c :: nat)
      in (48 \<le> n \<and> n \<le> 57) \<or> n = 178 \<or> n = 179 \<or> n = 185)"

text \<open>\<open>s.strip()\<close>: whitespace removed at both ends.\<close>

definition strip :: "string \<Rightarrow> string" where
  "strip s = rev (dropWhile is_space (rev (dropWhile is_space s)))"

text \<open>\<open>s.lower()\<close>.\<close>

definition lower :: "string \<Rightarrow> string" where
  "lower s = map lower_char s"

text \<open>\<open>s.isdigit()\<close>: at least one character, and every character a digit.\<close>

definition isdigit :: "string \<Rightarrow> bool" where
  "isdigit s = (s \<noteq> [] \<and> list_all is_digit_char s)"

text \<open>\<open>t in s\<close> on strings: \<open>t\<close> occurs in \<open>s\<close> as a contiguous run.\<close>

fun py_in :: "string \<Rightarrow> string \<Rightarrow> bool" where
  "py_in t [] = (t = [])"
| "py_in t (c # cs) = (take (length t) (c # cs) = t \<or> py_in t cs)"

text \<open>\<open>s.lstrip("0")\<close> and \<open>s.replace("/0", "/")\<close>, used to print a date.\<close>

definition lstrip0 :: "string \<Rightarrow> string" where
  "lstrip0 s = dropWhile (\<lambda>c. c = CHR ''0'') s"

fun replace_slash0 :: "string \<Rightarrow> string" where
  "replace_slash0 (a # b # cs) =
     (if a = CHR ''/'' \<and> b = CHR ''0'' then CHR ''/'' # replace_slash0 cs
      else a # replace_slash0 (b # cs))"
| "replace_slash0 cs = cs"

section \<open>The parsed markup\<close>

text \<open>
  \<open>BeautifulSoup(html_content, 'html.parser')\<close> either builds a tree from the string or
  raises \<open>ParserRejectedMarkup\<close>, on markup that \<open>html.parser\<close> rejects. A node of the tree
  is a text string or an element with its name, the values of its multi-valued \<open>class\<close>
  attribute, its other attributes and its children. Names of elements and attributes are in
  lower case, as the parser leaves them.
\<close>

datatype node =
    Text string
  | Elem string "string list" "(string \<times> string) list" "node list"

text \<open>
  A \<open>Tag\<close> object is a place in the tree: the path of child indices from the root, and the
  subtree found there. Two tags are the same object exactly when their paths agree.
\<close>

type_synonym tag = "nat list \<times> node"

text \<open>The root object of a tree, whose children are the top-level nodes of the fragment.\<close>

definition document :: "node list \<Rightarrow> tag" where
  "document nodes = ([], Elem ''[document]'' [] [] nodes)"

text \<open>
  The parser is library code and a parameter of the model: a function from the string to the
  message of the exception (\<open>Inl\<close>) or to the top-level nodes it builds (\<open>Inr\<close>).
\<close>

type_synonym html_parser = "string \<Rightarrow> string + node list"

definition BeautifulSoup :: "html_parser \<Rightarrow> string \<Rightarrow> string + tag" where
  "BeautifulSoup parser html_content =
     (case parser html_content of
        Inl e \<Rightarrow> Inl e
      | Inr nodes \<Rightarrow> Inr (document nodes))"

text \<open>All nodes strictly below a node, in document order, each with its path.\<close>

fun descendants :: "nat list \<Rightarrow> node \<Rightarrow> tag list"
  and descendants_from :: "nat list \<Rightarrow> nat \<Rightarrow> node list \<Rightarrow> tag list" where
  "descendants p (Text s) = []"
| "descendants p (Elem nm cls ats cs) = descendants_from p 0 cs"
| "descendants_from p i [] = []"
| "descendants_from p i (c # cs) =
     (p @ [i], c) # descendants (p @ [i]) c @ descendants_from p (Suc i) cs"

text \<open>\<open>tag.get(key)\<close> and \<open>tag.get('class', [])\<close>.\<close>

fun get_attr :: "node \<Rightarrow> string \<Rightarrow> string option" where
  "get_attr (Text s) k = None"
| "get_attr (Elem nm cls ats cs) k = map_of ats k"

fun get_class :: "node \<Rightarrow> string list" where
  "get_class (Text s) = []"
| "get_class (Elem nm cls ats cs) = cls"

text \<open>
  \<open>tag.get_text(strip=True)\<close>: every text string below the tag, stripped, the empty ones
  dropped, joined with nothing in between.
\<close>

fun all_strings :: "node \<Rightarrow> string list"
  and all_strings_of :: "node list \<Rightarrow> string list" where
  "all_strings (Text s) = [s]"
| "all_strings (Elem nm cls ats cs) = all_strings_of cs"
| "all_strings_of [] = []"
| "all_strings_of (c # cs) = all_strings c @ all_strings_of cs"

definition get_text :: "node \<Rightarrow> string" where
  "get_text n = concat (filter (\<lambda>s. s \<noteq> []) (map strip (all_strings n)))"

section \<open>CSS selectors\<close>

text \<open>
  The selectors of the program are comma-separated lists of compound selectors; a compound
  selector asks for an element name, for classes and for attributes.
\<close>

datatype attr_test =
    Has string
  | Contains string string
  | Equals string string

datatype compound = Compound "string option" "string list" "attr_test list"

type_synonym selector = "compound list"

fun attr_ok :: "(string \<times> string) list \<Rightarrow> attr_test \<Rightarrow> bool" where
  "attr_ok ats (Has k) = (map_of ats k \<noteq> None)"
| "attr_ok ats (Contains k v) = (case map_of ats k of None \<Rightarrow> False | Some w \<Rightarrow> py_in v w)"
| "attr_ok ats (Equals k v) = (map_of ats k = Some v)"

fun matches_compound :: "node \<Rightarrow> compound \<Rightarrow> bool" where
  "matches_compound (Text s) c = False"
| "matches_compound (Elem nm cls ats cs) (Compound want_nm want_cls tests) =
     ((case want_nm of None \<Rightarrow> True | Some w \<Rightarrow> w = nm)
      \<and> list_all (\<lambda>k. k \<in> set cls) want_cls
      \<and> list_all (attr_ok ats) tests)"

definition matches :: "selector \<Rightarrow> node \<Rightarrow> bool" where
  "matches sel n = list_ex (matches_compound n) sel"

text \<open>\<open>tag.select(sel)\<close>: the matching descendants in document order.\<close>

definition select :: "selector \<Rightarrow> tag \<Rightarrow> tag list" where
  "select sel t = filter (\<lambda>d. matches sel (snd d)) (descendants (fst t) (snd t))"

text \<open>\<open>tag.select_one(sel)\<close>: the first of them, or \<open>None\<close>.\<close>

definition select_one :: "selector \<Rightarrow> node \<Rightarrow> node option" where
  "select_one sel n = (case select sel ([], n) of [] \<Rightarrow> None | d # ds \<Rightarrow> Some (snd d))"

text \<open>The selectors the program names.\<close>

definition by_class :: "string \<Rightarrow> compound" where
  "by_class k = Compound None [k] []"

definition by_name_class :: "string \<Rightarrow> string \<Rightarrow> compound" where
  "by_name_class nm k = Compound (Some nm) [k] []"

definition div_gameday :: selector where
  "div_gameday = [Compound (Some ''div'') [] [Has ''gameday'']]"

definition div_match :: selector where
  "div_match = [by_name_class ''div'' ''match'']"

definition small_text_muted :: selector where
  "small_text_muted = [by_name_class ''small'' ''text-muted'']"

definition href_has :: "string \<Rightarrow> selector" where
  "href_has v = [Compound (Some ''a'') [] [Contains ''href'' v]]"

section \<open>Game records\<close>

record game =
  game_id :: string
  home_team :: string
  away_team :: string
  home_score :: string
  away_score :: string
  time :: string
  date :: "string option"
  sport :: string
  status :: string
  location :: "string option"
  league :: "string option"
  home_record :: "string option"
  away_record :: "string option"

section \<open>What the program prints\<close>

text \<open>
  The extraction functions read nothing but their arguments; their only effect is to print.
  The printed lines are the state the model passes along.
\<close>

datatype line =
    Found_date_sections nat
  | Date_games "string option" nat
  | Error_parsing_game string
  | Fetching_from int int
  | Day_games string nat
  | Total_games_fetched nat
  | Error_fetching_games string string

type_synonym stdout = "line list"

section \<open>One game container, detailed layout\<close>

text \<open>
  The team link: inside the left or right team wrapper first, anywhere in the container
  otherwise.
\<close>

definition team_elem :: "string \<Rightarrow> string \<Rightarrow> node \<Rightarrow> node option" where
  "team_elem wrapper_class team_class game_elem =
     (let team_container = select_one [by_name_class ''div'' wrapper_class] game_elem;
          elem = (case team_container of
                    None \<Rightarrow> None
                  | Some c \<Rightarrow> select_one [by_name_class ''a'' team_class] c)
      in case elem of
           None \<Rightarrow> select_one [by_name_class ''a'' team_class, by_class team_class] game_elem
         | Some e \<Rightarrow> Some e)"

text \<open>The score text: the text of the score element, \<open>"--"\<close> when there is none.\<close>

definition score_text :: "string \<Rightarrow> node \<Rightarrow> string" where
  "score_text score_class game_elem =
     (case select_one [by_name_class ''strong'' score_class, by_class score_class] game_elem of
        None \<Rightarrow> ''--''
      | Some e \<Rightarrow> get_text e)"

text \<open>The forfeit flag: the lower-cased text of the first \<open>small.text-muted\<close> element.\<close>

definition forfeit_text :: "node \<Rightarrow> string" where
  "forfeit_text game_elem =
     (case select_one small_text_muted game_elem of
        None \<Rightarrow> []
      | Some e \<Rightarrow> lower (get_text e))"

definition is_forfeit :: "node \<Rightarrow> bool" where
  "is_forfeit game_elem =
     (py_in ''forfeit'' (forfeit_text game_elem) \<or> py_in ''default'' (forfeit_text game_elem))"

text \<open>Status, home score and away score, from the two score texts and the forfeit flag.\<close>

definition classify :: "string \<Rightarrow> string \<Rightarrow> bool \<Rightarrow> string \<times> string \<times> string" where
  "classify home_score_text away_score_text forfeit =
     (if home_score_text = ''--'' \<and> away_score_text = ''--'' then
        (if forfeit then (''forfeit'', ''--'', ''--'') else (''scheduled'', ''--'', ''--''))
      else if isdigit home_score_text \<and> isdigit away_score_text then
        (if forfeit then (''forfeit'', home_score_text, away_score_text)
         else (''completed'', home_score_text, away_score_text))
      else
        (if forfeit then (''forfeit'', home_score_text, away_score_text)
         else (''unknown'', home_score_text, away_score_text)))"

text \<open>Text of the first match of a selector, or a default.\<close>

definition text_or :: "selector \<Rightarrow> string \<Rightarrow> node \<Rightarrow> string" where
  "text_or sel dflt game_elem =
     (case select_one sel game_elem of None \<Rightarrow> dflt | Some e \<Rightarrow> get_text e)"

definition text_opt :: "selector \<Rightarrow> node \<Rightarrow> string option" where
  "text_opt sel game_elem =
     (case select_one sel game_elem of None \<Rightarrow> None | Some e \<Rightarrow> Some (get_text e))"

text \<open>Facility and court.\<close>

definition facility_court :: "node \<Rightarrow> string option" where
  "facility_court game_elem =
     (let facility_elem = select_one [by_class ''match-facility''] game_elem;
          court_elem = select_one [by_class ''iml-game-court''] game_elem
      in case facility_elem of
           None \<Rightarrow> None
         | Some f \<Rightarrow>
             (case court_elem of
                None \<Rightarrow> Some (get_text f)
              | Some c \<Rightarrow> Some (get_text f @ '', '' @ get_text c)))"

text \<open>
  The win-loss records: every \<open>div.media\<close> block of the container in turn; a later block
  overwrites what an earlier one set.
\<close>

definition media_step ::
  "node \<Rightarrow> string option \<times> string option \<Rightarrow> string option \<times> string option" where
  "media_step media recs =
     (case select_one [by_class ''teamHome'', by_class ''teamAway''] media of
        None \<Rightarrow> recs
      | Some team_link \<Rightarrow>
          (case select_one [by_class ''media-body''] media of
             None \<Rightarrow> recs
           | Some media_body \<Rightarrow>
               (case select_one small_text_muted media_body of
                  None \<Rightarrow> recs
                | Some record_elem \<Rightarrow>
                    (let record_text = get_text record_elem
                     in if py_in ''-'' record_text \<and> py_in ''('' record_text then
                          (if ''teamHome'' \<in> set (get_class team_link)
                             then (Some record_text, snd recs)
                           else if ''teamAway'' \<in> set (get_class team_link)
                             then (fst recs, Some record_text)
                           else recs)
                        else recs))))"

fun media_loop ::
  "tag list \<Rightarrow> string option \<times> string option \<Rightarrow> string option \<times> string option" where
  "media_loop [] recs = recs"
| "media_loop (m # ms) recs = media_loop ms (media_step (snd m) recs)"

text \<open>
  The body of the \<open>try\<close> for one container: \<open>Inr None\<close> is the \<open>continue\<close> of a container
  without both team links, \<open>Inr (Some g)\<close> the record built, \<open>Inl e\<close> an exception.
\<close>

definition game_with_dates :: "string option \<Rightarrow> node \<Rightarrow> string + game option" where
  "game_with_dates current_date game_elem =
     (let gid = (case get_attr game_elem ''data-id'' of None \<Rightarrow> [] | Some v \<Rightarrow> v);
          home_team_elem = team_elem ''iml-team-left'' ''teamHome'' game_elem;
          away_team_elem = team_elem ''iml-team-right'' ''teamAway'' game_elem
      in case home_team_elem of
           None \<Rightarrow> Inr None
         | Some h \<Rightarrow>
             (case away_team_elem of
                None \<Rightarrow> Inr None
              | Some a \<Rightarrow>
                  (let home_score_text = score_text ''match-team1Score'' game_elem;
                       away_score_text = score_text ''match-team2Score'' game_elem;
                       cl = classify home_score_text away_score_text (is_forfeit game_elem);
                       recs = media_loop (select [by_name_class ''div'' ''media''] ([], game_elem))
                                (None, None)
                   in Inr (Some \<lparr>game_id = gid,
                                 home_team = get_text h,
                                 away_team = get_text a,
                                 home_score = fst (snd cl),
                                 away_score = snd (snd cl),
                                 time = text_or [by_class ''time''] ''TBD'' game_elem,
                                 date = current_date,
                                 sport = text_or (href_has ''/sport/'') ''Unknown'' game_elem,
                                 status = fst cl,
                                 location = facility_court game_elem,
                                 league = text_opt (href_has ''/league/'') game_elem,
                                 home_record = fst recs,
                                 away_record = snd recs\<rparr>))))"

section \<open>One game container, simple layout\<close>

definition simple_status :: "string \<Rightarrow> string \<Rightarrow> string" where
  "simple_status hs as =
     (if hs = ''--'' \<or> as = ''--'' then ''scheduled''
      else if isdigit hs \<and> isdigit as then ''completed''
      else ''unknown'')"

definition game_simple :: "string option \<Rightarrow> node \<Rightarrow> string + game option" where
  "game_simple current_date game_elem =
     (let gid = (case get_attr game_elem ''data-id'' of None \<Rightarrow> [] | Some v \<Rightarrow> v);
          home_team_elem = select_one [by_class ''teamHome''] game_elem;
          away_team_elem = select_one [by_class ''teamAway''] game_elem
      in case home_team_elem of
           None \<Rightarrow> Inr None
         | Some h \<Rightarrow>
             (case away_team_elem of
                None \<Rightarrow> Inr None
              | Some a \<Rightarrow>
                  (let hs = text_or [by_class ''match-team1Score''] ''--'' game_elem;
                       as = text_or [by_class ''match-team2Score''] ''--'' game_elem
                   in Inr (Some \<lparr>game_id = gid,
                                 home_team = get_text h,
                                 away_team = get_text a,
                                 home_score = hs,
                                 away_score = as,
                                 time = text_or [by_class ''time''] ''TBD'' game_elem,
                                 date = current_date,
                                 sport = text_or (href_has ''/sport/'') ''Unknown'' game_elem,
                                 status = simple_status hs as,
                                 location = text_opt [by_class ''location'', by_class ''venue'']
                                              game_elem,
                                 league = text_opt (href_has ''/league/'') game_elem,
                                 home_record = None,
                                 away_record = None\<rparr>))))"

section \<open>The extraction entry points\<close>

text \<open>
  The loop over the containers, with its \<open>try\<close>: an exception in the body is printed and the
  loop goes on with the next container.
\<close>

fun for_each_game ::
  "(node \<Rightarrow> string + game option) \<Rightarrow> tag list \<Rightarrow> game list \<times> stdout \<Rightarrow> game list \<times> stdout"
  where
  "for_each_game body [] st = st"
| "for_each_game body (g # gs) (games, out) =
     (case body (snd g) of
        Inl e \<Rightarrow> for_each_game body gs (games, out @ [Error_parsing_game e])
      | Inr None \<Rightarrow> for_each_game body gs (games, out)
      | Inr (Some r) \<Rightarrow> for_each_game body gs (games @ [r], out))"

fun for_each_section :: "tag list \<Rightarrow> game list \<times> stdout \<Rightarrow> game list \<times> stdout" where
  "for_each_section [] st = st"
| "for_each_section (s # ss) (games, out) =
     (let current_date = get_attr (snd s) ''gameday'';
          game_elements = select div_match s
      in for_each_section ss
           (for_each_game (game_with_dates current_date) game_elements
              (games, out @ [Date_games current_date (length game_elements)])))"

text \<open>
  The multi-day entry point. The tree is built first, outside every \<open>try\<close>: when the parser
  raises, the function raises. \<open>parse_games_html_with_dates_soup\<close> is the rest of the function,
  from the tree on.
\<close>

definition parse_games_html_with_dates_soup :: "tag \<Rightarrow> stdout \<Rightarrow> game list \<times> stdout" where
  "parse_games_html_with_dates_soup soup out =
     (let date_sections = select div_gameday soup
      in for_each_section date_sections
           ([], out @ [Found_date_sections (length date_sections)]))"

definition parse_games_html_with_dates ::
  "html_parser \<Rightarrow> string \<Rightarrow> stdout \<Rightarrow> string + game list \<times> stdout" where
  "parse_games_html_with_dates parser html_content out =
     (case BeautifulSoup parser html_content of
        Inl e \<Rightarrow> Inl e
      | Inr soup \<Rightarrow> Inr (parse_games_html_with_dates_soup soup out))"

text \<open>\<open>not current_date\<close>: \<open>None\<close> or the empty string.\<close>

definition falsy :: "string option \<Rightarrow> bool" where
  "falsy d = (d = None \<or> d = Some [])"

definition resolve_date :: "tag \<Rightarrow> string option \<Rightarrow> string option" where
  "resolve_date soup date_str =
     (let current_date = date_str;
          current_date1 =
            (if falsy current_date
             then text_opt [Compound None [] [Equals ''id'' ''pNowDate'']] (snd soup)
             else current_date)
      in if falsy current_date1
         then (case select_one [Compound None [] [Has ''gameday'']] (snd soup) of
                 None \<Rightarrow> current_date1
               | Some game_day_elem \<Rightarrow> get_attr game_day_elem ''gameday'')
         else current_date1)"

text \<open>The single-day entry point, and the rest of it from the tree on.\<close>

definition parse_games_html_soup ::
  "tag \<Rightarrow> string option \<Rightarrow> stdout \<Rightarrow> game list \<times> stdout" where
  "parse_games_html_soup soup date_str out =
     (let current_date = resolve_date soup date_str;
          game_elements = select div_match soup
      in for_each_game (game_simple current_date) game_elements ([], out))"

definition parse_games_html ::
  "html_parser \<Rightarrow> string \<Rightarrow> string option \<Rightarrow> stdout \<Rightarrow> string + game list \<times> stdout" where
  "parse_games_html parser html_content date_str out =
     (case BeautifulSoup parser html_content of
        Inl e \<Rightarrow> Inl e
      | Inr soup \<Rightarrow> Inr (parse_games_html_soup soup date_str out))"

section \<open>Fetching the window of days\<close>

text \<open>
  What the request for one day gives: an exception anywhere between sending the request and
  decoding the answer, an answer without \<open>Data\<close>, or the markup of the day. The markup is
  parsed inside the \<open>try\<close> of the request, so an exception of the parser ends the day with no
  records as well.
\<close>

datatype upstream = Raised string | No_data | Data string

definition fetch_games_for_specific_date ::
  "html_parser \<Rightarrow> (string \<Rightarrow> upstream) \<Rightarrow> string \<Rightarrow> stdout \<Rightarrow> game list \<times> stdout" where
  "fetch_games_for_specific_date parser post date_str out =
     (case post date_str of
        Raised e \<Rightarrow> ([], out @ [Error_fetching_games date_str e])
      | No_data \<Rightarrow> ([], out)
      | Data html_content \<Rightarrow>
          (case parse_games_html_with_dates parser html_content out of
             Inl e \<Rightarrow> ([], out @ [Error_fetching_games date_str e])
           | Inr games \<Rightarrow> games))"

text \<open>
  Dates are day numbers; \<open>strftime\<close> stands for \<open>strftime("%m/%d/%Y")\<close> of the library.
\<close>

definition date_string :: "(int \<Rightarrow> string) \<Rightarrow> int \<Rightarrow> string" where
  "date_string strftime d = replace_slash0 (lstrip0 (strftime d))"

function days_loop ::
  "html_parser \<Rightarrow> (int \<Rightarrow> string) \<Rightarrow> (string \<Rightarrow> upstream) \<Rightarrow> int \<Rightarrow> int
     \<Rightarrow> game list \<times> stdout \<Rightarrow> game list \<times> stdout" where
  "days_loop parser strftime post current_date end_date (all_games, out) =
     (if current_date \<le> end_date then
        (let date_str = date_string strftime current_date;
             fetched = fetch_games_for_specific_date parser post date_str out;
             games = fst fetched
         in days_loop parser strftime post (current_date + 1) end_date
              (if games \<noteq> []
               then (all_games @ games, snd fetched @ [Day_games date_str (length games)])
               else (all_games, snd fetched)))
      else (all_games, out))"
  by pat_completeness auto
termination
  by (relation "measure (\<lambda>(parser, strftime, post, current_date, end_date, st).
                  nat (end_date + 1 - current_date))") auto

declare days_loop.simps [simp del]

definition fetch_all_games ::
  "html_parser \<Rightarrow> (int \<Rightarrow> string) \<Rightarrow> (string \<Rightarrow> upstream) \<Rightarrow> int \<Rightarrow> stdout
     \<Rightarrow> game list \<times> stdout" where
  "fetch_all_games parser strftime post today out =
     (let start_date = today - 3;
          end_date = today + 7;
          looped = days_loop parser strftime post start_date end_date
                     ([], out @ [Fetching_from start_date end_date]);
          all_games = fst looped
      in (all_games, snd looped @ [Total_games_fetched (length all_games)]))"

section \<open>Vocabulary of the properties\<close>

text \<open>What one run of the loop body leaves behind: the record appended, the line printed.\<close>

definition built :: "(node \<Rightarrow> string + game option) \<Rightarrow> tag \<Rightarrow> game option" where
  "built body g = (case body (snd g) of Inl e \<Rightarrow> None | Inr r \<Rightarrow> r)"

definition complaint :: "(node \<Rightarrow> string + game option) \<Rightarrow> tag \<Rightarrow> line option" where
  "complaint body g =
     (case body (snd g) of Inl e \<Rightarrow> Some (Error_parsing_game e) | Inr r \<Rightarrow> None)"

text \<open>The records of one day section.\<close>

definition section_games :: "tag \<Rightarrow> game list" where
  "section_games s =
     List.map_filter (built (game_with_dates (get_attr (snd s) ''gameday'')))
       (select div_match s)"

text \<open>
  The extraction attempts of the multi-day entry point, in the order they are made: the
  containers of the first day section, then those of the second, and so on, each with the date
  of its section.
\<close>

definition attempts :: "node list \<Rightarrow> (string option \<times> tag) list" where
  "attempts html_content =
     concat (map (\<lambda>s. map (\<lambda>g. (get_attr (snd s) ''gameday'', g)) (select div_match s))
                 (select div_gameday (document html_content)))"

text \<open>The containers of the single-day entry point.\<close>

definition containers :: "node list \<Rightarrow> tag list" where
  "containers html_content = select div_match (document html_content)"

text \<open>A container that the body leaves with \<open>continue\<close>, in each layout.\<close>

definition skipped_with_dates :: "node \<Rightarrow> bool" where
  "skipped_with_dates g =
     (team_elem ''iml-team-left'' ''teamHome'' g = None
      \<or> team_elem ''iml-team-right'' ''teamAway'' g = None)"

definition skipped_simple :: "node \<Rightarrow> bool" where
  "skipped_simple g =
     (select_one [by_class ''teamHome''] g = None \<or> select_one [by_class ''teamAway''] g = None)"

text \<open>The node at a path below a node.\<close>

fun node_at :: "node \<Rightarrow> nat list \<Rightarrow> node option" where
  "node_at n [] = Some n"
| "node_at (Text s) (i # r) = None"
| "node_at (Elem nm cls ats cs) (i # r) = (if i < length cs then node_at (cs ! i) r else None)"

text \<open>The records one day of the window contributes.\<close>

definition day_games :: "html_parser \<Rightarrow> (string \<Rightarrow> upstream) \<Rightarrow> string \<Rightarrow> game list" where
  "day_games parser post date_str = fst (fetch_games_for_specific_date parser post date_str [])"

text \<open>A day whose request raised.\<close>

fun failed :: "upstream \<Rightarrow> bool" where
  "failed (Raised e) = True"
| "failed No_data = False"
| "failed (Data html_content) = False"

text \<open>A day whose markup the parser rejects.\<close>

fun unparsable :: "html_parser \<Rightarrow> upstream \<Rightarrow> bool" where
  "unparsable parser (Raised e) = False"
| "unparsable parser No_data = False"
| "unparsable parser (Data html_content) = isl (parser html_content)"

text \<open>No day section lies inside another day section.\<close>

definition day_sections_apart :: "node list \<Rightarrow> bool" where
  "day_sections_apart html_content =
     list_all (\<lambda>s. select div_gameday s = []) (select div_gameday (document html_content))"

text \<open>Every game container of the markup lies inside a day section.\<close>

definition containers_in_day_sections :: "node list \<Rightarrow> bool" where
  "containers_in_day_sections html_content =
     list_all (\<lambda>c. list_ex (\<lambda>s. c \<in> set (select div_match s))
                             (select div_gameday (document html_content)))
       (containers html_content)"

section \<open>Sample markup\<close>

definition ex_home :: node where
  "ex_home = Elem ''a'' [''teamHome''] [] [Text ''Team A'']"

definition ex_away :: node where
  "ex_away = Elem ''a'' [''teamAway''] [] [Text ''Team B'']"

definition ex_score :: "string \<Rightarrow> string \<Rightarrow> node" where
  "ex_score k s = Elem ''strong'' [k] [] [Text s]"

definition ex_muted :: "string \<Rightarrow> node" where
  "ex_muted s = Elem ''small'' [''text-muted''] [] [Text s]"

definition ex_match :: "node list \<Rightarrow> node" where
  "ex_match kids = Elem ''div'' [''match''] [(''data-id'', ''7'')] kids"

definition ex_day :: "string \<Rightarrow> node list \<Rightarrow> node" where
  "ex_day d kids = Elem ''div'' [] [(''gameday'', d)] kids"

text \<open>The record of a container with both teams and nothing else, on 2/15/2026.\<close>

definition ex_record :: game where
  "ex_record = \<lparr>game_id = ''7'', home_team = ''Team A'', away_team = ''Team B'',
                home_score = ''--'', away_score = ''--'', time = ''TBD'',
                date = Some ''2/15/2026'', sport = ''Unknown'', status = ''scheduled'',
                location = None, league = None, home_record = None, away_record = None\<rparr>"

text \<open>No scores, and the muted text "Team A Default".\<close>

definition ex_defaulted :: node where
  "ex_defaulted = ex_match [ex_home, ex_away, ex_muted ''Team A Default'']"

text \<open>Scores 21 and 14, a muted win-loss record, then a muted forfeit note.\<close>

definition ex_late_marker :: node where
  "ex_late_marker =
     ex_match [ex_home, ex_away, ex_score ''match-team1Score'' ''21'',
               ex_score ''match-team2Score'' ''14'', ex_muted ''(3-1-0)'',
               ex_muted ''Team A Forfeit'']"

text \<open>Scores 21 and 14, and a muted forfeit note.\<close>

definition ex_forfeit_scored :: node where
  "ex_forfeit_scored =
     ex_match [ex_home, ex_away, ex_score ''match-team1Score'' ''21'',
               ex_score ''match-team2Score'' ''14'', ex_muted ''Forfeit'']"

text \<open>A home score of 21 and no away score element.\<close>

definition ex_one_score :: node where
  "ex_one_score = ex_match [ex_home, ex_away, ex_score ''match-team1Score'' ''21'']"

text \<open>A home team link with no text in it.\<close>

definition ex_nameless :: node where
  "ex_nameless = ex_match [Elem ''a'' [''teamHome''] [] [], ex_away]"

text \<open>No home team link at all.\<close>

definition ex_homeless :: node where
  "ex_homeless = ex_match [ex_away]"

text \<open>Facility and court.\<close>

definition ex_located :: node where
  "ex_located =
     ex_match [ex_home, ex_away,
               Elem ''span'' [''match-facility''] [] [Text ''Court Complex''],
               Elem ''span'' [''iml-game-court''] [] [Text ''Court 3'']]"

text \<open>A day section inside another day section, with one container in the inner one.\<close>

definition ex_nested_days :: "node list" where
  "ex_nested_days =
     [ex_day ''2/15/2026'' [ex_day ''2/16/2026'' [ex_match [ex_home, ex_away]]]]"

text \<open>Two day sections side by side.\<close>

definition ex_two_days :: "node list" where
  "ex_two_days =
     [ex_day ''2/15/2026'' [ex_defaulted, ex_homeless],
      ex_day ''2/16/2026'' [ex_located]]"

text \<open>
  Three strings and what \<open>html.parser\<close> makes of them: the markup of a day with the
  container \<open>ex_defaulted\<close>, the markup of that container without a day section around it,
  and a marked section with an unknown keyword, which the parser rejects. \<open>ex_parser\<close> stands
  for the parser on these three strings; every other string is taken as an empty document.
\<close>

definition ex_defaulted_markup :: string where
  "ex_defaulted_markup =
     ''<div gameday=2/15/2026><div class=match data-id=7>''
     @ ''<a class=teamHome>Team A</a><a class=teamAway>Team B</a>''
     @ ''<small class=text-muted>Team A Default</small></div></div>''"

definition ex_sectionless_markup :: string where
  "ex_sectionless_markup =
     ''<div class=match data-id=7>''
     @ ''<a class=teamHome>Team A</a><a class=teamAway>Team B</a>''
     @ ''<small class=text-muted>Team A Default</small></div>''"

definition ex_rejected_markup :: string where
  "ex_rejected_markup = ''<![foo bar]>''"

definition ex_parser :: html_parser where
  "ex_parser html_content =
     (if html_content = ex_rejected_markup then Inl ''ParserRejectedMarkup''
      else if html_content = ex_defaulted_markup then Inr [ex_day ''2/15/2026'' [ex_defaulted]]
      else if html_content = ex_sectionless_markup then Inr [ex_defaulted]
      else Inr [])"

text \<open>A transport that fails every day, and one that fails on all days but one.\<close>

definition ex_down :: "string \<Rightarrow> upstream" where
  "ex_down date_str = Raised ''timeout''"

definition ex_flaky :: "string \<Rightarrow> upstream" where
  "ex_flaky date_str =
     (if date_str = ''2/15/2026'' then Data ex_defaulted_markup
      else Raised ''timeout'')"

text \<open>A transport that answers every day with markup the parser rejects.\<close>

definition ex_garbled :: "string \<Rightarrow> upstream" where
  "ex_garbled date_str = Data ex_rejected_markup"

text \<open>A transport that answers every day with the container without a day section.\<close>

definition ex_sectionless :: "string \<Rightarrow> upstream" where
  "ex_sectionless date_str = Data ex_sectionless_markup"

text \<open>\<open>strftime("%m/%d/%Y")\<close> for the days of February 2026, numbered by the day of the month.\<close>

definition ex_strftime :: "int \<Rightarrow> string" where
  "ex_strftime d =
     ''02/'' @ [char_of (48 + nat d div 10), char_of (48 + nat d mod 10)] @ ''/2026''"

text \<open>
  Two teams with their win-loss records, each in the \<open>media-body\<close> of its \<open>media\<close> block,
  the scores 21 and 0, then a muted forfeit note.
\<close>

definition ex_records_then_forfeit :: node where
  "ex_records_then_forfeit =
     ex_match [Elem ''div'' [''media''] []
                 [ex_home, Elem ''div'' [''media-body''] [] [ex_muted ''(3-1-0)'']],
               Elem ''div'' [''media''] []
                 [ex_away, Elem ''div'' [''media-body''] [] [ex_muted ''(1-3-0)'']],
               ex_score ''match-team1Score'' ''21'', ex_score ''match-team2Score'' ''0'',
               ex_muted ''Team B Forfeit'']"

text \<open>A muted win-loss record, then a muted forfeit note, and no scores.\<close>

definition ex_late_marker_unscored :: node where
  "ex_late_marker_unscored =
     ex_match [ex_home, ex_away, ex_muted ''(3-1-0)'', ex_muted ''Team A Forfeit'']"

section \<open>The loops, as list functions\<close>

lemma for_each_game_eq:
  "for_each_game body gs (games, out) =
     (games @ List.map_filter (built body) gs, out @ List.map_filter (complaint body) gs)"
  by (induction gs arbitrary: games out)
     (auto simp: built_def complaint_def split: sum.splits option.splits)

lemma fst_for_each_game:
  "fst (for_each_game body gs st) = fst st @ List.map_filter (built body) gs"
  by (cases st) (simp add: for_each_game_eq)

lemma fst_for_each_section:
  "fst (for_each_section ss st) = fst st @ concat (map section_games ss)"
proof (induction ss arbitrary: st)
  case Nil
  show ?case by simp
next
  case (Cons s ss)
  obtain games out where st: "st = (games, out)" by (cases st)
  show ?case
    by (simp add: st Let_def for_each_game_eq Cons.IH section_games_def)
qed

lemma with_dates_games:
  "fst (parse_games_html_with_dates_soup (document html) out) =
     concat (map section_games (select div_gameday (document html)))"
  by (simp add: parse_games_html_with_dates_soup_def Let_def fst_for_each_section)

lemma simple_games:
  "fst (parse_games_html_soup (document html) d out) =
     List.map_filter (built (game_simple (resolve_date (document html) d)))
       (containers html)"
  by (simp add: parse_games_html_soup_def Let_def fst_for_each_game containers_def)

lemma with_dates_parsed:
  "parser s = Inr nodes \<Longrightarrow>
     parse_games_html_with_dates parser s out
       = Inr (parse_games_html_with_dates_soup (document nodes) out)"
  by (simp add: parse_games_html_with_dates_def BeautifulSoup_def)

lemma with_dates_rejected:
  "parser s = Inl e \<Longrightarrow> parse_games_html_with_dates parser s out = Inl e"
  by (simp add: parse_games_html_with_dates_def BeautifulSoup_def)

lemma simple_parsed:
  "parser s = Inr nodes \<Longrightarrow>
     parse_games_html parser s d out = Inr (parse_games_html_soup (document nodes) d out)"
  by (simp add: parse_games_html_def BeautifulSoup_def)

lemma simple_rejected:
  "parser s = Inl e \<Longrightarrow> parse_games_html parser s d out = Inl e"
  by (simp add: parse_games_html_def BeautifulSoup_def)

lemma length_map_filter:
  "length (List.map_filter f xs) = length xs - length (filter (\<lambda>x. f x = None) xs)"
proof (induction xs)
  case Nil
  show ?case by simp
next
  case (Cons x xs)
  have "length (filter (\<lambda>x. f x = None) xs) \<le> length xs" by simp
  with Cons show ?case
    by (auto simp: Suc_diff_le split: option.splits)
qed

lemma set_map_filter: "set (List.map_filter f xs) = {y. \<exists>x \<in> set xs. f x = Some y}"
  by (induction xs) (auto split: option.splits)

lemma map_filter_concat:
  "List.map_filter f (concat xss) = concat (map (List.map_filter f) xss)"
  by (induction xss) (simp_all add: List.map_filter_def)

lemma map_filter_map:
  "List.map_filter f (map g xs) = List.map_filter (f \<circ> g) xs"
  by (simp add: List.map_filter_def filter_map comp_def)

lemma with_dates_attempts:
  "fst (parse_games_html_with_dates_soup (document html) out) =
     List.map_filter (\<lambda>a. built (game_with_dates (fst a)) (snd a)) (attempts html)"
  by (simp add: with_dates_games attempts_def map_filter_concat map_filter_map comp_def
        section_games_def cong: map_cong)

section \<open>Substrings, stripping and lower case\<close>

lemma py_in_iff: "py_in t s \<longleftrightarrow> (\<exists>pre suf. s = pre @ t @ suf)"
proof (induction s)
  case Nil
  show ?case by auto
next
  case (Cons c cs)
  show ?case
  proof
    assume "py_in t (c # cs)"
    then consider "take (length t) (c # cs) = t" | "py_in t cs" by auto
    then show "\<exists>pre suf. c # cs = pre @ t @ suf"
    proof cases
      case 1
      then have "c # cs = [] @ t @ drop (length t) (c # cs)"
        by (metis append_Nil append_take_drop_id)
      then show ?thesis by blast
    next
      case 2
      then obtain pre suf where "cs = pre @ t @ suf" using Cons by blast
      then have "c # cs = (c # pre) @ t @ suf" by simp
      then show ?thesis by blast
    qed
  next
    assume "\<exists>pre suf. c # cs = pre @ t @ suf"
    then obtain pre suf where e: "c # cs = pre @ t @ suf" by blast
    show "py_in t (c # cs)"
    proof (cases pre)
      case Nil
      with e have "take (length t) (c # cs) = t" by simp
      then show ?thesis by simp
    next
      case (Cons a pre')
      with e have "cs = pre' @ t @ suf" by simp
      then have "py_in t cs" using Cons.IH by blast
      then show ?thesis by simp
    qed
  qed
qed

lemma dropWhile_keeps:
  assumes "t \<noteq> []" "\<not> P (hd t)"
  shows "\<exists>pre'. dropWhile P (pre @ t @ suf) = pre' @ t @ suf"
proof (induction pre)
  case Nil
  from assms have "dropWhile P (t @ suf) = t @ suf" by (cases t) simp_all
  then show ?case by (metis append_Nil)
next
  case (Cons a pre)
  show ?case
  proof (cases "P a")
    case True
    with Cons show ?thesis by simp
  next
    case False
    then have "dropWhile P ((a # pre) @ t @ suf) = (a # pre) @ t @ suf" by simp
    then show ?thesis by blast
  qed
qed

lemma strip_keeps:
  assumes "t \<noteq> []" "\<not> is_space (hd t)" "\<not> is_space (last t)"
  shows "\<exists>pre' suf'. strip (pre @ t @ suf) = pre' @ t @ suf'"
proof -
  obtain pre' where a: "dropWhile is_space (pre @ t @ suf) = pre' @ t @ suf"
    using dropWhile_keeps [of t is_space pre suf] assms(1,2) by blast
  have "rev t \<noteq> []" "\<not> is_space (hd (rev t))"
    using assms by (simp_all add: hd_rev)
  then obtain suf' where b: "dropWhile is_space (rev suf @ rev t @ rev pre') = suf' @ rev t @ rev pre'"
    using dropWhile_keeps [of "rev t" is_space "rev suf" "rev pre'"] by blast
  have "strip (pre @ t @ suf) = pre' @ t @ rev suf'"
    by (simp add: strip_def a b)
  then show ?thesis by blast
qed

lemma space_is_lower: "is_space c \<Longrightarrow> lower_char c = c"
  by (auto simp: is_space_def lower_char_def Let_def)

lemma map_eq_append3:
  assumes "map f s = pre @ t @ suf"
  obtains pre0 t0 suf0 where "s = pre0 @ t0 @ suf0" "map f t0 = t"
proof
  show "s = take (length pre) s @ take (length t) (drop (length pre) s)
              @ drop (length t) (drop (length pre) s)"
    by (simp only: append_take_drop_id)
  have "map f (take (length t) (drop (length pre) s))
          = take (length t) (drop (length pre) (map f s))"
    by (simp add: take_map drop_map)
  also have "\<dots> = t"
    by (simp add: assms)
  finally show "map f (take (length t) (drop (length pre) s)) = t" .
qed

lemma py_in_lower_strip:
  assumes "py_in tok (lower s)" "tok \<noteq> []" "\<not> is_space (hd tok)" "\<not> is_space (last tok)"
  shows "py_in tok (lower (strip s))"
proof -
  from assms(1) obtain pre suf where "map lower_char s = pre @ tok @ suf"
    by (auto simp: py_in_iff lower_def)
  then obtain pre0 t0 suf0 where s: "s = pre0 @ t0 @ suf0" and t0: "map lower_char t0 = tok"
    using map_eq_append3 by blast
  from t0 assms(2) have ne: "t0 \<noteq> []" by auto
  have "lower_char (hd t0) = hd tok" "lower_char (last t0) = last tok"
    using t0 ne by (auto simp: hd_map last_map)
  with assms(3,4) have "\<not> is_space (hd t0)" "\<not> is_space (last t0)"
    using space_is_lower by fastforce+
  with ne obtain pre' suf' where "strip (pre0 @ t0 @ suf0) = pre' @ t0 @ suf'"
    using strip_keeps [of t0 pre0 suf0] by blast
  with s t0 have "lower (strip s) = lower pre' @ tok @ lower suf'"
    by (simp add: lower_def)
  then show ?thesis
    unfolding py_in_iff by blast
qed

lemma lower_eq: "lower = map lower_char"
  by (rule ext) (simp add: lower_def)

lemma py_in_concat:
  assumes "x \<in> set xs" "py_in t x"
  shows "py_in t (concat xs)"
proof -
  from assms(1) obtain ys zs where "xs = ys @ x # zs" by (auto dest: split_list)
  moreover from assms(2) obtain pre suf where "x = pre @ t @ suf" by (auto simp: py_in_iff)
  ultimately have "concat xs = (concat ys @ pre) @ t @ (suf @ concat zs)" by simp
  then show ?thesis unfolding py_in_iff by blast
qed

lemma marker_in_a_text_string:
  assumes "s \<in> set (all_strings e)" "py_in tok (lower s)"
    and "tok \<noteq> []" "\<not> is_space (hd tok)" "\<not> is_space (last tok)"
  shows "py_in tok (lower (get_text e))"
proof -
  have in_stripped: "py_in tok (lower (strip s))"
    using assms(2-5) by (rule py_in_lower_strip)
  then have "strip s \<noteq> []"
    using assms(3) by (auto simp: py_in_iff lower_def)
  with assms(1) have "lower (strip s) \<in> set (map lower (filter (\<lambda>s. s \<noteq> []) (map strip (all_strings e))))"
    by auto
  with in_stripped have "py_in tok (concat (map lower (filter (\<lambda>s. s \<noteq> []) (map strip (all_strings e)))))"
    by (rule py_in_concat [rotated])
  then show ?thesis
    by (simp add: get_text_def lower_eq map_concat)
qed

text \<open>
  The two markers begin and end with a letter, so a marker that stands in one of the text
  strings of an element, in any case and at any position, stands in the text of the element.
\<close>

lemma forfeit_marker_in_a_text_string:
  assumes "s \<in> set (all_strings e)"
    and "py_in ''forfeit'' (lower s) \<or> py_in ''default'' (lower s)"
  shows "py_in ''forfeit'' (lower (get_text e)) \<or> py_in ''default'' (lower (get_text e))"
proof -
  have f: "\<not> is_space (hd ''forfeit'')" "\<not> is_space (last ''forfeit'')"
    by (simp_all add: is_space_def)
  have d: "\<not> is_space (hd ''default'')" "\<not> is_space (last ''default'')"
    by (simp_all add: is_space_def)
  from assms(2) show ?thesis
  proof
    assume "py_in ''forfeit'' (lower s)"
    then have "py_in ''forfeit'' (lower (get_text e))"
      using assms(1) f by (intro marker_in_a_text_string [of s e]) simp_all
    then show ?thesis ..
  next
    assume "py_in ''default'' (lower s)"
    then have "py_in ''default'' (lower (get_text e))"
      using assms(1) d by (intro marker_in_a_text_string [of s e]) simp_all
    then show ?thesis ..
  qed
qed

section \<open>Status of a record\<close>

lemma game_with_dates_SomeD:
  assumes "game_with_dates d g = Inr (Some r)"
  shows "status r = fst (classify (score_text ''match-team1Score'' g)
                          (score_text ''match-team2Score'' g) (is_forfeit g))"
    and "location r = facility_court g"
    and "date r = d"
  using assms
  by (auto simp: game_with_dates_def Let_def split: option.splits)

lemma classify_forfeit: "fst (classify hs as True) = ''forfeit''"
  by (simp add: classify_def)

text \<open>
  In the detailed layout a record is \<open>completed\<close> exactly when both score texts are digits
  and the forfeit flag is off, and \<open>scheduled\<close> exactly when both score texts are \<open>"--"\<close> and
  the flag is off.
\<close>

lemma with_dates_completed_iff:
  assumes "game_with_dates d g = Inr (Some r)"
  shows "status r = ''completed'' \<longleftrightarrow>
           isdigit (score_text ''match-team1Score'' g)
           \<and> isdigit (score_text ''match-team2Score'' g) \<and> \<not> is_forfeit g"
  using game_with_dates_SomeD(1)[OF assms]
  by (auto simp: classify_def isdigit_def is_digit_char_def split: if_splits)

lemma with_dates_scheduled_iff:
  assumes "game_with_dates d g = Inr (Some r)"
  shows "status r = ''scheduled'' \<longleftrightarrow>
           score_text ''match-team1Score'' g = ''--''
           \<and> score_text ''match-team2Score'' g = ''--'' \<and> \<not> is_forfeit g"
  using game_with_dates_SomeD(1)[OF assms]
  by (auto simp: classify_def split: if_splits)

text \<open>
  The forfeit detector of the detailed layout reads one element, the first
  \<open>small.text-muted\<close> of the container in document order. A record is \<open>forfeit\<close> exactly when
  the detector fires, and it fires when the text of that element contains \<open>forfeit\<close> or
  \<open>default\<close>, in any case and at any position.
\<close>

lemma status_forfeit_iff:
  assumes "game_with_dates d g = Inr (Some r)"
  shows "status r = ''forfeit'' \<longleftrightarrow> is_forfeit g"
  using game_with_dates_SomeD(1)[OF assms]
  by (auto simp: classify_def split: if_splits)

lemma forfeit_marker_in_first_muted_element:
  assumes "game_with_dates d g = Inr (Some r)"
    and "select_one small_text_muted g = Some e"
    and "py_in ''forfeit'' (lower (get_text e)) \<or> py_in ''default'' (lower (get_text e))"
  shows "status r = ''forfeit''"
proof -
  have "is_forfeit g"
    using assms(2,3) by (simp add: is_forfeit_def forfeit_text_def)
  then show ?thesis
    using status_forfeit_iff [OF assms(1)] by simp
qed

lemma first_muted_element_decides:
  assumes "game_with_dates d g = Inr (Some r)"
    and "select_one small_text_muted g = Some e"
    and "\<not> py_in ''forfeit'' (lower (get_text e))" "\<not> py_in ''default'' (lower (get_text e))"
  shows "status r \<noteq> ''forfeit''"
proof -
  have "\<not> is_forfeit g"
    using assms(2-4) by (simp add: is_forfeit_def forfeit_text_def)
  then show ?thesis
    using status_forfeit_iff [OF assms(1)] by simp
qed

text \<open>
  C1 fails in the program. The forfeit marker is looked for in the first muted element of the
  container only, and the win-loss records are muted elements too. A container whose first
  muted element is the record "(3-1-0)" and whose second muted element reads "Team A Forfeit"
  has the marker in a muted element, and its record is \<open>completed\<close> with the scores 21 and 14,
  \<open>scheduled\<close> without scores. With the records where the record resolver looks for them, in
  the \<open>media-body\<close> of each team's \<open>media\<close> block, the resolver finds "(3-1-0)" and
  "(1-3-0)", and the forfeit note that follows them is not read: the record is \<open>completed\<close>.
\<close>

theorem forfeit_note_after_a_record_is_missed:
  "ex_muted ''Team A Forfeit'' \<in> set (map snd (select small_text_muted ([], ex_late_marker)))
   \<and> py_in ''forfeit'' (lower (get_text (ex_muted ''Team A Forfeit'')))
   \<and> select_one small_text_muted ex_late_marker = Some (ex_muted ''(3-1-0)'')
   \<and> map status
         (fst (parse_games_html_with_dates_soup (document [ex_day ''2/15/2026'' [ex_late_marker]])
                 []))
       = [''completed'']
   \<and> map status
         (fst (parse_games_html_with_dates_soup
                 (document [ex_day ''2/15/2026'' [ex_late_marker_unscored]]) []))
       = [''scheduled'']
   \<and> ex_muted ''Team B Forfeit''
         \<in> set (map snd (select small_text_muted ([], ex_records_then_forfeit)))
   \<and> py_in ''forfeit'' (lower (get_text (ex_muted ''Team B Forfeit'')))
   \<and> map home_record
         (fst (parse_games_html_with_dates_soup
                 (document [ex_day ''2/15/2026'' [ex_records_then_forfeit]]) []))
       = [Some ''(3-1-0)'']
   \<and> map away_record
         (fst (parse_games_html_with_dates_soup
                 (document [ex_day ''2/15/2026'' [ex_records_then_forfeit]]) []))
       = [Some ''(1-3-0)'']
   \<and> map status
         (fst (parse_games_html_with_dates_soup
                 (document [ex_day ''2/15/2026'' [ex_records_then_forfeit]]) []))
       = [''completed'']"
  by code_simp

text \<open>
  C2 at the single-day entry point: a container with scores 21 and 14 and the muted text
  "Forfeit" comes out \<open>completed\<close>, where the multi-day entry point says \<open>forfeit\<close>.
\<close>

theorem simple_layout_completed_despite_forfeit:
  "is_forfeit ex_forfeit_scored
   \<and> map status (fst (parse_games_html_soup (document [ex_forfeit_scored]) (Some ''2/15/2026'') []))
       = [''completed'']
   \<and> map status (fst (parse_games_html_with_dates_soup (document [ex_day ''2/15/2026'' [ex_forfeit_scored]]) []))
       = [''forfeit'']"
  by code_simp

text \<open>
  C3 at the single-day entry point: a container with a home score of 21, no away score and
  no forfeit marker comes out \<open>scheduled\<close>, where the multi-day entry point says \<open>unknown\<close>.
\<close>

theorem simple_layout_scheduled_with_one_score:
  "map home_score (fst (parse_games_html_soup (document [ex_one_score]) (Some ''2/15/2026'') [])) = [''21'']
   \<and> map away_score (fst (parse_games_html_soup (document [ex_one_score]) (Some ''2/15/2026'') [])) = [''--'']
   \<and> is_forfeit ex_one_score = False
   \<and> map status (fst (parse_games_html_soup (document [ex_one_score]) (Some ''2/15/2026'') []))
       = [''scheduled'']
   \<and> map status (fst (parse_games_html_with_dates_soup (document [ex_day ''2/15/2026'' [ex_one_score]]) []))
       = [''unknown'']"
  by code_simp

section \<open>One container at a time\<close>






section \<open>The window of days\<close>

lemma day_games_failed: "failed (post ds) \<Longrightarrow> day_games parser post ds = []"
  by (cases "post ds") (simp_all add: day_games_def fetch_games_for_specific_date_def)

lemma fst_fetch:
  "fst (fetch_games_for_specific_date parser post ds out) = day_games parser post ds"
proof (cases "post ds")
  case (Data html_content)
  show ?thesis
  proof (cases "parser html_content")
    case (Inl e)
    with Data show ?thesis
      by (simp add: day_games_def fetch_games_for_specific_date_def with_dates_rejected)
  next
    case (Inr nodes)
    with Data show ?thesis
      by (simp add: day_games_def fetch_games_for_specific_date_def with_dates_parsed
            with_dates_games)
  qed
qed (simp_all add: day_games_def fetch_games_for_specific_date_def)

lemma day_games_unparsable:
  assumes "unparsable parser (post ds)"
  shows "day_games parser post ds = []"
proof (cases "post ds")
  case (Data html_content)
  with assms obtain e where "parser html_content = Inl e"
    by (cases "parser html_content") simp_all
  with Data show ?thesis
    by (simp add: day_games_def fetch_games_for_specific_date_def with_dates_rejected)
qed (use assms in simp_all)

lemma fst_days_loop:
  "fst (days_loop parser strftime post c e st) =
     fst st @ concat (map (\<lambda>d. day_games parser post (date_string strftime d)) [c..e])"
proof (induction parser strftime post c e st rule: days_loop.induct)
  case (1 parser strftime post c e all_games out)
  show ?case
  proof (cases "c \<le> e")
    case True
    then have u: "[c..e] = c # [c + 1..e]" by (simp add: upto_rec1)
    show ?thesis
      using True 1
      by (subst days_loop.simps) (auto simp: Let_def fst_fetch u)
  next
    case False
    then show ?thesis by (simp add: days_loop.simps)
  qed
qed

text \<open>
  C6. The records returned by the aggregator are the records of the eleven days from three
  days before today to seven days after, one day after the other in ascending order. A day
  whose request raises contributes no records, and the days after it are still fetched; when
  every day of the window fails, the result is the empty list. A day whose markup the parser
  rejects counts as a failed day in the same way.
\<close>

theorem window_is_walked_day_by_day:
  "fst (fetch_all_games parser strftime post today out) =
     concat (map (\<lambda>d. day_games parser post (date_string strftime d)) [today - 3..today + 7])
   \<and> [today - 3..today + 7] =
       [today - 3, today - 2, today - 1, today, today + 1, today + 2, today + 3, today + 4,
        today + 5, today + 6, today + 7]
   \<and> (failed (post ds) \<longrightarrow> fst (fetch_games_for_specific_date parser post ds out) = [])
   \<and> (list_all (\<lambda>d. failed (post (date_string strftime d))) [today - 3..today + 7]
      \<longrightarrow> fst (fetch_all_games parser strftime post today out) = [])
   \<and> (unparsable parser (post ds) \<longrightarrow>
        fst (fetch_games_for_specific_date parser post ds out) = [])
   \<and> (list_all (\<lambda>d. failed (post (date_string strftime d))
                        \<or> unparsable parser (post (date_string strftime d)))
         [today - 3..today + 7]
      \<longrightarrow> fst (fetch_all_games parser strftime post today out) = [])"
proof (intro conjI impI)
  show a: "fst (fetch_all_games parser strftime post today out) =
     concat (map (\<lambda>d. day_games parser post (date_string strftime d)) [today - 3..today + 7])"
    by (simp add: fetch_all_games_def Let_def fst_days_loop)
  show "[today - 3..today + 7] =
       [today - 3, today - 2, today - 1, today, today + 1, today + 2, today + 3, today + 4,
        today + 5, today + 6, today + 7]"
    by (simp add: upto_rec1)
  show "fst (fetch_games_for_specific_date parser post ds out) = []" if "failed (post ds)"
    using that by (simp add: fst_fetch day_games_failed)
  show "fst (fetch_all_games parser strftime post today out) = []"
    if "list_all (\<lambda>d. failed (post (date_string strftime d))) [today - 3..today + 7]"
  proof -
    have "day_games parser post (date_string strftime d) = []" if "d \<in> set [today - 3..today + 7]" for d
      using that \<open>list_all _ _\<close>
      by (auto simp: list_all_iff day_games_failed)
    then show ?thesis
      unfolding a by (simp del: set_upto)
  qed
  show "fst (fetch_games_for_specific_date parser post ds out) = []"
    if "unparsable parser (post ds)"
    using that by (simp add: fst_fetch day_games_unparsable)
  show "fst (fetch_all_games parser strftime post today out) = []"
    if "list_all (\<lambda>d. failed (post (date_string strftime d))
                        \<or> unparsable parser (post (date_string strftime d)))
         [today - 3..today + 7]"
  proof -
    have "day_games parser post (date_string strftime d) = []"
      if "d \<in> set [today - 3..today + 7]" for d
    proof -
      from that \<open>list_all _ _\<close>
      have "failed (post (date_string strftime d))
            \<or> unparsable parser (post (date_string strftime d))"
        by (auto simp: list_all_iff)
      then show ?thesis
        using day_games_failed day_games_unparsable by blast
    qed
    then show ?thesis
      unfolding a by (simp del: set_upto)
  qed
qed

theorem window_is_walked_day_by_day_witness:
  "failed (ex_down ''2/15/2026'')
   \<and> list_all (\<lambda>d. failed (ex_down (date_string ex_strftime d))) [15 - 3..15 + 7]
   \<and> fst (fetch_all_games ex_parser ex_strftime ex_down 15 []) = []
   \<and> fst (fetch_games_for_specific_date ex_parser ex_down ''2/15/2026'' []) = []
   \<and> map (date_string ex_strftime) [15 - 3..15 + 7] =
       [''2/12/2026'', ''2/13/2026'', ''2/14/2026'', ''2/15/2026'', ''2/16/2026'',
        ''2/17/2026'', ''2/18/2026'', ''2/19/2026'', ''2/20/2026'', ''2/21/2026'',
        ''2/22/2026'']
   \<and> fst (fetch_all_games ex_parser ex_strftime ex_flaky 15 []) = [ex_record\<lparr>status := ''forfeit''\<rparr>]
   \<and> unparsable ex_parser (ex_garbled ''2/15/2026'')
   \<and> fst (fetch_games_for_specific_date ex_parser ex_garbled ''2/15/2026'' []) = []
   \<and> fst (fetch_all_games ex_parser ex_strftime ex_garbled 15 []) = []"
proof -
  have h1: "failed (ex_down ''2/15/2026'')"
    by code_simp
  have h2: "list_all (\<lambda>d. failed (ex_down (date_string ex_strftime d))) [15 - 3..15 + 7]"
    by code_simp
  have v: "map (date_string ex_strftime) [15 - 3..15 + 7] =
       [''2/12/2026'', ''2/13/2026'', ''2/14/2026'', ''2/15/2026'', ''2/16/2026'',
        ''2/17/2026'', ''2/18/2026'', ''2/19/2026'', ''2/20/2026'', ''2/21/2026'',
        ''2/22/2026'']"
    by code_simp
  have w: "fst (fetch_all_games ex_parser ex_strftime ex_flaky 15 []) = [ex_record\<lparr>status := ''forfeit''\<rparr>]"
    by code_simp
  note walk = window_is_walked_day_by_day
            [where parser = ex_parser and strftime = ex_strftime and post = ex_down and today = 15 and out = "[]"
               and ds = "''2/15/2026''"]
  have r1: "fst (fetch_all_games ex_parser ex_strftime ex_down 15 []) = []"
    using walk h2 by blast
  have r2: "fst (fetch_games_for_specific_date ex_parser ex_down ''2/15/2026'' []) = []"
    using walk h1 by blast
  have h3: "unparsable ex_parser (ex_garbled ''2/15/2026'')"
    by code_simp
  have h4: "list_all (\<lambda>d. failed (ex_garbled (date_string ex_strftime d))
                          \<or> unparsable ex_parser (ex_garbled (date_string ex_strftime d)))
              [15 - 3..15 + 7]"
    by code_simp
  note garbled = window_is_walked_day_by_day
            [where parser = ex_parser and strftime = ex_strftime and post = ex_garbled
               and today = 15 and out = "[]" and ds = "''2/15/2026''"]
  have r3: "fst (fetch_games_for_specific_date ex_parser ex_garbled ''2/15/2026'' []) = []"
    using garbled h3 by blast
  have r4: "fst (fetch_all_games ex_parser ex_strftime ex_garbled 15 []) = []"
    using garbled h4 by blast
  show ?thesis
    using h1 h2 r1 r2 v w h3 r3 r4 by (intro conjI)
qed

section \<open>Location\<close>

text \<open>
  C7. The location of a record of the detailed layout is the facility text, a comma and a
  space, and the court text when the container has a facility element and a court element;
  the facility text alone when it has a facility element only; and absent when it has no
  facility element, with or without a court element.
\<close>

theorem location_of_detailed_container:
  assumes "game_with_dates d g = Inr (Some r)"
  shows "location r =
           (case select_one [by_class ''match-facility''] g of
              None \<Rightarrow> None
            | Some f \<Rightarrow>
                (case select_one [by_class ''iml-game-court''] g of
                   None \<Rightarrow> Some (get_text f)
                 | Some c \<Rightarrow> Some (get_text f @ '', '' @ get_text c)))"
  using game_with_dates_SomeD(2)[OF assms]
  by (simp add: facility_court_def Let_def)

theorem location_of_detailed_container_witness:
  "game_with_dates (Some ''2/15/2026'') ex_located
     = Inr (Some (ex_record\<lparr>location := Some ''Court Complex, Court 3''\<rparr>))
   \<and> select_one [by_class ''match-facility''] ex_located
       = Some (Elem ''span'' [''match-facility''] [] [Text ''Court Complex''])
   \<and> select_one [by_class ''iml-game-court''] ex_located
       = Some (Elem ''span'' [''iml-game-court''] [] [Text ''Court 3''])
   \<and> location (ex_record\<lparr>location := Some ''Court Complex, Court 3''\<rparr>)
       = Some ''Court Complex, Court 3''"
proof -
  have a: "game_with_dates (Some ''2/15/2026'') ex_located
             = Inr (Some (ex_record\<lparr>location := Some ''Court Complex, Court 3''\<rparr>))"
    by code_simp
  have f: "select_one [by_class ''match-facility''] ex_located
             = Some (Elem ''span'' [''match-facility''] [] [Text ''Court Complex''])"
    by code_simp
  have c: "select_one [by_class ''iml-game-court''] ex_located
             = Some (Elem ''span'' [''iml-game-court''] [] [Text ''Court 3''])"
    by code_simp
  have t: "get_text (Elem ''span'' [''match-facility''] [] [Text ''Court Complex''])
             @ '', '' @ get_text (Elem ''span'' [''iml-game-court''] [] [Text ''Court 3''])
           = ''Court Complex, Court 3''"
    by code_simp
  show ?thesis
    using location_of_detailed_container [OF a] a f c t by simp
qed

section \<open>The date of a single-day fragment\<close>

lemma resolve_date_supplied: "d \<noteq> [] \<Longrightarrow> resolve_date soup (Some d) = Some d"
  by (simp add: resolve_date_def falsy_def Let_def)

lemma built_simple_date: "built (game_simple cd) g = Some r \<Longrightarrow> date r = cd"
  by (auto simp: built_def game_simple_def Let_def split: option.splits sum.splits)

lemma with_dates_dates:
  "list_all (\<lambda>r. date r \<in> set (map (\<lambda>s. get_attr (snd s) ''gameday'')
                                    (select div_gameday (document html))))
     (fst (parse_games_html_with_dates_soup (document html) out))"
proof -
  have "date r = get_attr (snd s) ''gameday''" if "r \<in> set (section_games s)" for r s
  proof -
    from that obtain g where "built (game_with_dates (get_attr (snd s) ''gameday'')) g = Some r"
      by (auto simp: section_games_def set_map_filter)
    then have "game_with_dates (get_attr (snd s) ''gameday'') (snd g) = Inr (Some r)"
      by (auto simp: built_def split: sum.splits)
    then show ?thesis by (rule game_with_dates_SomeD(3))
  qed
  then show ?thesis
    by (auto simp: with_dates_games list_all_iff)
qed

text \<open>
  C9, as the program has it. The single-day entry point takes every container of the
  fragment, whether or not the fragment has day sections, and when a date is supplied from
  outside (a string that is not empty) every record carries that date: the date elements of
  the markup are not consulted. The multi-day entry point takes no date from outside: every
  record is built with the date of the day section under which its container is attempted,
  and a fragment without day sections gives no records.
\<close>

theorem supplied_date_is_used:
  assumes "d \<noteq> []"
  shows "fst (parse_games_html_soup (document html) (Some d) out) =
           List.map_filter (built (game_simple (Some d))) (containers html)
         \<and> list_all (\<lambda>r. date r = Some d) (fst (parse_games_html_soup (document html) (Some d) out))
         \<and> (parser s = Inr html \<longrightarrow>
              map_sum id fst (parse_games_html parser s (Some d) out)
                = Inr (List.map_filter (built (game_simple (Some d))) (containers html)))
         \<and> list_all (\<lambda>r. date r \<in> set (map (\<lambda>s. get_attr (snd s) ''gameday'')
                                              (select div_gameday (document html))))
              (fst (parse_games_html_with_dates_soup (document html) out))
         \<and> (select div_gameday (document html) = [] \<longrightarrow>
              fst (parse_games_html_with_dates_soup (document html) out) = [])
         \<and> fst (parse_games_html_with_dates_soup (document html) out) =
             List.map_filter (\<lambda>a. built (game_with_dates (fst a)) (snd a)) (attempts html)
         \<and> (built (game_with_dates cd) g = Some r \<longrightarrow> date r = cd)"
proof (intro conjI impI)
  show a: "fst (parse_games_html_soup (document html) (Some d) out) =
           List.map_filter (built (game_simple (Some d))) (containers html)"
    using assms by (simp add: simple_games resolve_date_supplied)
  show "list_all (\<lambda>r. date r = Some d) (fst (parse_games_html_soup (document html) (Some d) out))"
    unfolding a by (auto simp: list_all_iff set_map_filter dest: built_simple_date)
  show "map_sum id fst (parse_games_html parser s (Some d) out)
          = Inr (List.map_filter (built (game_simple (Some d))) (containers html))"
    if "parser s = Inr html"
    using that a by (simp add: simple_parsed)
  show "list_all (\<lambda>r. date r \<in> set (map (\<lambda>s. get_attr (snd s) ''gameday'')
                                          (select div_gameday (document html))))
          (fst (parse_games_html_with_dates_soup (document html) out))"
    by (rule with_dates_dates)
  show "fst (parse_games_html_with_dates_soup (document html) out) = []"
    if "select div_gameday (document html) = []"
    using that by (simp add: with_dates_games)
  show "fst (parse_games_html_with_dates_soup (document html) out) =
          List.map_filter (\<lambda>a. built (game_with_dates (fst a)) (snd a)) (attempts html)"
    by (rule with_dates_attempts)
  show "date r = cd" if "built (game_with_dates cd) g = Some r"
  proof -
    from that have "game_with_dates cd (snd g) = Inr (Some r)"
      by (auto simp: built_def split: sum.splits)
    then show ?thesis by (rule game_with_dates_SomeD(3))
  qed
qed

theorem supplied_date_is_used_witness:
  "''2/15/2026'' \<noteq> []
   \<and> map date (fst (parse_games_html_soup (document [ex_day ''2/16/2026'' [ex_defaulted]])
                      (Some ''2/15/2026'') []))
       = [Some ''2/15/2026'']
   \<and> list_all (\<lambda>r. date r = Some ''2/15/2026'')
        (fst (parse_games_html_soup (document [ex_day ''2/16/2026'' [ex_defaulted]]) (Some ''2/15/2026'') []))
   \<and> map date (fst (parse_games_html_soup (document [ex_day ''2/16/2026'' [ex_defaulted]]) None []))
       = [Some ''2/16/2026'']
   \<and> ex_parser ex_sectionless_markup = Inr [ex_defaulted]
   \<and> map_sum id fst (parse_games_html ex_parser ex_sectionless_markup (Some ''2/15/2026'') [])
       = Inr [ex_record]
   \<and> select div_gameday (document [ex_defaulted]) = []
   \<and> fst (parse_games_html_with_dates_soup (document [ex_defaulted]) []) = []"
proof -
  have h: "''2/15/2026'' \<noteq> []"
    by simp
  have v: "map date (fst (parse_games_html_soup (document [ex_day ''2/16/2026'' [ex_defaulted]])
                      (Some ''2/15/2026'') []))
       = [Some ''2/15/2026'']"
    by code_simp
  have w: "map date (fst (parse_games_html_soup (document [ex_day ''2/16/2026'' [ex_defaulted]]) None []))
       = [Some ''2/16/2026'']"
    by code_simp
  have la: "list_all (\<lambda>r. date r = Some ''2/15/2026'')
        (fst (parse_games_html_soup (document [ex_day ''2/16/2026'' [ex_defaulted]]) (Some ''2/15/2026'') []))"
    using supplied_date_is_used [OF h, of "[ex_day ''2/16/2026'' [ex_defaulted]]" "[]"]
    by blast
  have p: "ex_parser ex_sectionless_markup = Inr [ex_defaulted]"
    by code_simp
  have k: "List.map_filter (built (game_simple (Some ''2/15/2026''))) (containers [ex_defaulted])
             = [ex_record]"
    by code_simp
  have n: "select div_gameday (document [ex_defaulted]) = []"
    by code_simp
  note loose = supplied_date_is_used
    [OF h, where html = "[ex_defaulted]" and out = "[]" and parser = ex_parser
       and s = ex_sectionless_markup]
  have r1: "map_sum id fst (parse_games_html ex_parser ex_sectionless_markup (Some ''2/15/2026'') [])
       = Inr [ex_record]"
    using loose p k by simp
  have r2: "fst (parse_games_html_with_dates_soup (document [ex_defaulted]) []) = []"
    using loose n by blast
  show ?thesis
    using h v la w p r1 n r2 by (intro conjI)
qed

text \<open>
  C9, as stated, fails at the multi-day entry point, the one the day-by-day fetch calls: a
  fragment with one game container and no day section gives no records, and the date the
  fetch asked for is not handed to the extraction. The single-day entry point returns the
  record of that container under the supplied date; given the empty string as the date, it
  takes the date from the markup.
\<close>

theorem sectionless_fragment_counterexample:
  "map fst (containers [ex_defaulted]) = [[0]]
   \<and> select div_gameday (document [ex_defaulted]) = []
   \<and> fst (parse_games_html_with_dates_soup (document [ex_defaulted]) []) = []
   \<and> ex_parser ex_sectionless_markup = Inr [ex_defaulted]
   \<and> map_sum id fst (parse_games_html_with_dates ex_parser ex_sectionless_markup []) = Inr []
   \<and> fst (fetch_games_for_specific_date ex_parser ex_sectionless ''2/15/2026'' []) = []
   \<and> map_sum id fst (parse_games_html ex_parser ex_sectionless_markup (Some ''2/15/2026'') [])
       = Inr [ex_record]
   \<and> map date
         (fst (parse_games_html_soup (document [ex_day ''2/16/2026'' [ex_defaulted]])
                 (Some []) []))
       = [Some ''2/16/2026'']"
  by code_simp

section \<open>Running twice\<close>

text \<open>
  C10. The records an entry point returns depend on the markup (and the date) alone, not on
  what has been printed before: two runs on the same input, one after the other or from
  different starting states, return the same list of records in the same order.
\<close>

theorem extraction_is_repeatable:
  "fst (parse_games_html_with_dates_soup (document html) out') = fst (parse_games_html_with_dates_soup (document html) out)
   \<and> fst (parse_games_html_soup (document html) d out') = fst (parse_games_html_soup (document html) d out)
   \<and> fst (parse_games_html_with_dates_soup (document html) (snd (parse_games_html_with_dates_soup (document html) out)))
       = fst (parse_games_html_with_dates_soup (document html) out)
   \<and> fst (parse_games_html_soup (document html) d (snd (parse_games_html_soup (document html) d out)))
       = fst (parse_games_html_soup (document html) d out)
   \<and> map_sum id fst (parse_games_html_with_dates parser s out')
       = map_sum id fst (parse_games_html_with_dates parser s out)
   \<and> map_sum id fst (parse_games_html parser s d out')
       = map_sum id fst (parse_games_html parser s d out)"
proof -
  have with_dates: "fst (parse_games_html_with_dates_soup (document html) o1)
                      = fst (parse_games_html_with_dates_soup (document html) o2)" for o1 o2
    by (simp only: with_dates_games)
  have simple: "fst (parse_games_html_soup (document html) d o1) = fst (parse_games_html_soup (document html) d o2)" for o1 o2
    by (simp only: simple_games)
  have with_dates_s: "map_sum id fst (parse_games_html_with_dates parser s out')
                        = map_sum id fst (parse_games_html_with_dates parser s out)"
    by (cases "parser s") (simp_all add: with_dates_rejected with_dates_parsed with_dates_games)
  have simple_s: "map_sum id fst (parse_games_html parser s d out')
                    = map_sum id fst (parse_games_html parser s d out)"
    by (cases "parser s") (simp_all add: simple_rejected simple_parsed simple_games)
  show ?thesis
    using with_dates simple with_dates_s simple_s by (intro conjI)
qed

theorem extraction_is_repeatable_witness:
  "fst (parse_games_html_with_dates_soup (document ex_two_days)
          (snd (parse_games_html_with_dates_soup (document ex_two_days) [])))
     = fst (parse_games_html_with_dates_soup (document ex_two_days) [])
   \<and> snd (parse_games_html_with_dates_soup (document ex_two_days) [])
     = [Found_date_sections 2, Date_games (Some ''2/15/2026'') 2,
        Date_games (Some ''2/16/2026'') 1]
   \<and> map status (fst (parse_games_html_with_dates_soup (document ex_two_days) [])) = [''forfeit'', ''scheduled'']"
proof -
  have v: "snd (parse_games_html_with_dates_soup (document ex_two_days) [])
     = [Found_date_sections 2, Date_games (Some ''2/15/2026'') 2,
        Date_games (Some ''2/16/2026'') 1]"
    by code_simp
  have w: "map status (fst (parse_games_html_with_dates_soup (document ex_two_days) []))
             = [''forfeit'', ''scheduled'']"
    by code_simp
  show ?thesis
    using extraction_is_repeatable
            [where html = ex_two_days and out = "[]" and out' = "[]" and d = None]
          v w
    by simp
qed

section \<open>Order and identity of the extraction attempts\<close>

text \<open>Paths are compared in document order: a node comes before the nodes below it, and
  before everything after it.\<close>

lemma Nil_less_iff [simp]: "[] < r \<longleftrightarrow> r \<noteq> []" for r :: "nat list"
  by (cases r) simp_all

lemma append_less_append [simp]: "p @ x < p @ y \<longleftrightarrow> x < y" for x y :: "nat list"
  by (induction p) simp_all

lemma less_append_self [simp]: "p < p @ r \<longleftrightarrow> r \<noteq> []" for p :: "nat list"
  using append_less_append [of p "[]" r] by (cases r) (simp_all del: append_less_append)

lemma node_at_append:
  "node_at n (r @ t) = (case node_at n r of None \<Rightarrow> None | Some m \<Rightarrow> node_at m t)"
proof (induction r arbitrary: n)
  case Nil
  show ?case by simp
next
  case (Cons i r)
  show ?case by (cases n) (simp_all add: Cons)
qed

lemma in_descendants:
  "(q, m) \<in> set (descendants p n) \<longleftrightarrow> (\<exists>r. r \<noteq> [] \<and> q = p @ r \<and> node_at n r = Some m)"
  and in_descendants_from:
  "(q, m) \<in> set (descendants_from p i cs) \<longleftrightarrow>
     (\<exists>j r. j < length cs \<and> q = p @ (i + j) # r \<and> node_at (cs ! j) r = Some m)"
proof (induction p n and p i cs arbitrary: q m and q m rule: descendants_descendants_from.induct)
  case (1 p s)
  show ?case
  proof
    assume "\<exists>r. r \<noteq> [] \<and> q = p @ r \<and> node_at (Text s) r = Some m"
    then obtain r where "r \<noteq> []" "node_at (Text s) r = Some m" by blast
    then show "(q, m) \<in> set (descendants p (Text s))" by (cases r) simp_all
  qed simp
next
  case (2 p nm cls ats cs)
  show ?case
  proof
    assume "(q, m) \<in> set (descendants p (Elem nm cls ats cs))"
    then obtain j r where "j < length cs" "q = p @ (0 + j) # r" "node_at (cs ! j) r = Some m"
      using 2 by auto
    then have "j # r \<noteq> [] \<and> q = p @ (j # r) \<and> node_at (Elem nm cls ats cs) (j # r) = Some m"
      by simp
    then show "\<exists>r. r \<noteq> [] \<and> q = p @ r \<and> node_at (Elem nm cls ats cs) r = Some m" by blast
  next
    assume "\<exists>r. r \<noteq> [] \<and> q = p @ r \<and> node_at (Elem nm cls ats cs) r = Some m"
    then obtain r where r: "r \<noteq> []" "q = p @ r" "node_at (Elem nm cls ats cs) r = Some m"
      by blast
    then obtain j r' where jr: "r = j # r'" by (cases r) auto
    with r have "j < length cs" "node_at (cs ! j) r' = Some m"
      by (auto split: if_splits)
    with r jr show "(q, m) \<in> set (descendants p (Elem nm cls ats cs))"
      using 2 by auto
  qed
next
  case (3 p i)
  show ?case by simp
next
  case (4 p i c cs)
  show ?case
  proof
    assume "(q, m) \<in> set (descendants_from p i (c # cs))"
    then consider "q = p @ [i]" "m = c"
      | "(q, m) \<in> set (descendants (p @ [i]) c)"
      | "(q, m) \<in> set (descendants_from p (Suc i) cs)"
      by auto
    then show "\<exists>j r. j < length (c # cs) \<and> q = p @ (i + j) # r \<and> node_at ((c # cs) ! j) r = Some m"
    proof cases
      case 1
      then have "0 < length (c # cs) \<and> q = p @ (i + 0) # [] \<and> node_at ((c # cs) ! 0) [] = Some m"
        by simp
      then show ?thesis by blast
    next
      case 2
      then obtain r where "r \<noteq> []" "q = (p @ [i]) @ r" "node_at c r = Some m"
        using 4(1) by blast
      then have "0 < length (c # cs) \<and> q = p @ (i + 0) # r \<and> node_at ((c # cs) ! 0) r = Some m"
        by simp
      then show ?thesis by blast
    next
      case 3
      then obtain j r where "j < length cs" "q = p @ (Suc i + j) # r" "node_at (cs ! j) r = Some m"
        using 4(2) by blast
      then have "Suc j < length (c # cs) \<and> q = p @ (i + Suc j) # r
                 \<and> node_at ((c # cs) ! Suc j) r = Some m"
        by simp
      then show ?thesis by blast
    qed
  next
    assume "\<exists>j r. j < length (c # cs) \<and> q = p @ (i + j) # r \<and> node_at ((c # cs) ! j) r = Some m"
    then obtain j r where jr: "j < length (c # cs)" "q = p @ (i + j) # r"
      "node_at ((c # cs) ! j) r = Some m" by blast
    show "(q, m) \<in> set (descendants_from p i (c # cs))"
    proof (cases j)
      case 0
      show ?thesis
      proof (cases r)
        case Nil
        with 0 jr show ?thesis by simp
      next
        case (Cons a r')
        with 0 jr have "r \<noteq> [] \<and> q = (p @ [i]) @ r \<and> node_at c r = Some m" by simp
        then have "(q, m) \<in> set (descendants (p @ [i]) c)" using 4(1) by blast
        then show ?thesis by simp
      qed
    next
      case (Suc j')
      with jr have "j' < length cs \<and> q = p @ (Suc i + j') # r \<and> node_at (cs ! j') r = Some m"
        by simp
      then have "(q, m) \<in> set (descendants_from p (Suc i) cs)" using 4(2) by blast
      then show ?thesis by simp
    qed
  qed
qed

lemma sorted_descendants:
  "sorted_wrt (<) (map fst (descendants p n))"
  and sorted_descendants_from:
  "sorted_wrt (<) (map fst (descendants_from p i cs))"
proof (induction p n and p i cs rule: descendants_descendants_from.induct)
  case (4 p i c cs)
  have a: "p @ [i] < q" if "(q, m) \<in> set (descendants (p @ [i]) c)" for q m
    using that by (auto simp: in_descendants)
  have b: "p @ [i] < q" if "(q, m) \<in> set (descendants_from p (Suc i) cs)" for q m
    using that by (auto simp: in_descendants_from)
  have c: "q < q'" if "(q, m) \<in> set (descendants (p @ [i]) c)"
    "(q', m') \<in> set (descendants_from p (Suc i) cs)" for q m q' m'
    using that by (auto simp: in_descendants in_descendants_from)
  show ?case
    using 4 a b c by (auto simp: sorted_wrt_append)
qed simp_all

lemma less_cases:
  fixes p q :: "nat list"
  assumes "p < q"
  shows "(\<exists>t. t \<noteq> [] \<and> q = p @ t) \<or> (\<exists>u x v y w. x < y \<and> p = u @ x # v \<and> q = u @ y # w)"
proof -
  from assms have "(\<exists>a v. q = p @ a # v)
      \<or> (\<exists>u a b v w. a < b \<and> p = u @ a # v \<and> q = u @ b # w)"
    by (simp add: list_less_def lexord_def)
  then show ?thesis
    by (metis list.distinct(1))
qed

lemma sorted_select: "sorted_wrt (<) (map fst (select sel t))"
  using sorted_descendants [of "fst t" "snd t"]
  by (simp add: select_def sorted_wrt_map sorted_wrt_filter)

lemma in_select:
  "d \<in> set (select sel t) \<longleftrightarrow>
     matches sel (snd d) \<and> (\<exists>r. r \<noteq> [] \<and> fst d = fst t @ r \<and> node_at (snd t) r = Some (snd d))"
  using in_descendants [of "fst d" "snd d" "fst t" "snd t"]
  by (auto simp: select_def)

lemma sorted_concat:
  assumes "\<And>x. x \<in> set xs \<Longrightarrow> sorted_wrt (<) (f x)"
    and "sorted_wrt (\<lambda>x y. \<forall>a \<in> set (f x). \<forall>b \<in> set (f y). a < b) xs"
  shows "sorted_wrt (<) (concat (map f xs))"
  using assms by (induction xs) (auto simp: sorted_wrt_append)

lemma in_selectD:
  assumes "d \<in> set (select sel t)"
  obtains r where "r \<noteq> []" "fst d = fst t @ r" "node_at (snd t) r = Some (snd d)"
    "matches sel (snd d)"
  using assms in_select [of d sel t] by blast

lemma diverging_paths:
  fixes u :: "nat list"
  assumes "x < y"
  shows "(p @ u @ x # v) @ r < (p @ u @ y # w) @ r'"
  using assms by simp

lemma sections_apart:
  assumes s: "s \<in> set (select sel0 root)" and s': "s' \<in> set (select sel0 root)"
    and lt: "fst s < fst s'" and flat: "select sel0 s = []"
    and a: "a \<in> set (select sel s)" and b: "b \<in> set (select sel s')"
  shows "fst a < fst b"
proof -
  from s obtain r0 where r0: "fst s = fst root @ r0" "node_at (snd root) r0 = Some (snd s)"
    by (rule in_selectD)
  from s' obtain r0' where r0': "fst s' = fst root @ r0'"
    "node_at (snd root) r0' = Some (snd s')" and m': "matches sel0 (snd s')"
    by (rule in_selectD)
  from a obtain r where r: "fst a = fst s @ r"
    by (rule in_selectD)
  from b obtain r' where r': "fst b = fst s' @ r'"
    by (rule in_selectD)
  from lt have "r0 < r0'"
    unfolding r0(1) r0'(1) by (simp only: append_less_append)
  then consider t where "t \<noteq> []" "r0' = r0 @ t"
    | u x v y w where "x < y" "r0 = u @ x # v" "r0' = u @ y # w"
    using less_cases [of r0 r0'] by blast
  then show ?thesis
  proof cases
    case 1
    from r0'(2) have "node_at (snd s) t = Some (snd s')"
      unfolding 1(2) node_at_append r0(2) by simp
    with 1(1) m' have "s' \<in> set (select sel0 s)"
      unfolding in_select [of s' sel0 s] r0'(1) r0(1) 1(2) by auto
    with flat show ?thesis by simp
  next
    case 2
    show ?thesis
      unfolding r r' r0(1) r0'(1) 2(2,3) using 2(1) by (rule diverging_paths)
  qed
qed

lemma attempts_paths:
  "map (fst \<circ> snd) (attempts html) =
     concat (map (\<lambda>s. map fst (select div_match s)) (select div_gameday (document html)))"
  by (simp add: attempts_def map_concat comp_def)

lemma attempts_sorted:
  assumes "list_all (\<lambda>s. select div_gameday s = []) (select div_gameday (document html))"
  shows "sorted_wrt (<) (map (fst \<circ> snd) (attempts html))"
proof -
  let ?secs = "select div_gameday (document html)"
  have "sorted_wrt (\<lambda>s s'. fst s < fst s') ?secs"
    using sorted_select [of div_gameday "document html"] by (simp add: sorted_wrt_map)
  then have "sorted_wrt (\<lambda>s s'. \<forall>a \<in> set (map fst (select div_match s)).
                                 \<forall>b \<in> set (map fst (select div_match s')). a < b) ?secs"
  proof (rule sorted_wrt_mono_rel [rotated])
    fix s s'
    assume in_secs: "s \<in> set ?secs" "s' \<in> set ?secs" and lt: "fst s < fst s'"
    from in_secs(1) assms have flat: "select div_gameday s = []"
      by (simp add: list_all_iff)
    show "\<forall>a \<in> set (map fst (select div_match s)).
            \<forall>b \<in> set (map fst (select div_match s')). a < b"
    proof (intro ballI)
      fix a b
      assume "a \<in> set (map fst (select div_match s))" "b \<in> set (map fst (select div_match s'))"
      then obtain ta tb where "ta \<in> set (select div_match s)" "a = fst ta"
        "tb \<in> set (select div_match s')" "b = fst tb"
        by (auto simp: image_iff)
      then show "a < b"
        using sections_apart [OF in_secs lt flat, of ta div_match tb] by simp
    qed
  qed
  then show ?thesis
    unfolding attempts_paths by (intro sorted_concat) (simp_all add: sorted_select)
qed

lemma attempts_located:
  "list_all (\<lambda>a. node_at (snd (document html)) (fst (snd a)) = Some (snd (snd a))
                  \<and> matches div_match (snd (snd a)))
     (attempts html)"
proof -
  have "node_at (snd (document html)) (fst g) = Some (snd g) \<and> matches div_match (snd g)"
    if s: "s \<in> set (select div_gameday (document html))" and g: "g \<in> set (select div_match s)"
    for s g
  proof -
    from s obtain r0 where r0: "fst s = fst (document html) @ r0"
      "node_at (snd (document html)) r0 = Some (snd s)"
      by (rule in_selectD)
    from g obtain r where r: "fst g = fst s @ r" "node_at (snd s) r = Some (snd g)"
      and m: "matches div_match (snd g)"
      by (rule in_selectD)
    have "fst g = r0 @ r"
      unfolding r(1) r0(1) by (simp add: document_def)
    with r0(2) r(2) m show ?thesis by (simp add: node_at_append)
  qed
  then show ?thesis
    unfolding attempts_def list_all_iff by auto
qed

text \<open>
  C8, as the program has it. The records come out in the order of the extraction attempts:
  day sections in document order, and within a section its containers in document order.
  Every attempt is made on a \<open>div.match\<close> element of the document, at its path. When no day
  section lies inside another day section, the paths of the attempts increase strictly in
  document order, so no container is attempted twice.
\<close>

theorem attempts_follow_the_document:
  "fst (parse_games_html_with_dates_soup (document html) out) =
     List.map_filter (\<lambda>a. built (game_with_dates (fst a)) (snd a)) (attempts html)
   \<and> list_all (\<lambda>a. node_at (snd (document html)) (fst (snd a)) = Some (snd (snd a))
                    \<and> matches div_match (snd (snd a)))
       (attempts html)
   \<and> sorted_wrt (<) (map fst (select div_gameday (document html)))
   \<and> sorted_wrt (<) (map fst (select div_match s))
   \<and> (list_all (\<lambda>s. select div_gameday s = []) (select div_gameday (document html))
      \<longrightarrow> sorted_wrt (<) (map (fst \<circ> snd) (attempts html))
          \<and> distinct (map (fst \<circ> snd) (attempts html)))"
  using attempts_sorted [of html] strict_sorted_iff [of "map (fst \<circ> snd) (attempts html)"]
  by (simp add: with_dates_attempts attempts_located sorted_select)

theorem attempts_follow_the_document_witness:
  "list_all (\<lambda>s. select div_gameday s = []) (select div_gameday (document ex_two_days))
   \<and> map (fst \<circ> snd) (attempts ex_two_days) = [[0, 0], [0, 1], [1, 0]]
   \<and> sorted_wrt (<) (map (fst \<circ> snd) (attempts ex_two_days))
   \<and> distinct (map (fst \<circ> snd) (attempts ex_two_days))
   \<and> map date (fst (parse_games_html_with_dates_soup (document ex_two_days) []))
       = [Some ''2/15/2026'', Some ''2/16/2026'']"
proof -
  have h: "list_all (\<lambda>s. select div_gameday s = [])
             (select div_gameday (document ex_two_days))"
    by code_simp
  have v: "map (fst \<circ> snd) (attempts ex_two_days) = [[0, 0], [0, 1], [1, 0]]"
    by code_simp
  have w: "map date (fst (parse_games_html_with_dates_soup (document ex_two_days) []))
             = [Some ''2/15/2026'', Some ''2/16/2026'']"
    by code_simp
  have r: "sorted_wrt (<) (map (fst \<circ> snd) (attempts ex_two_days))
           \<and> distinct (map (fst \<circ> snd) (attempts ex_two_days))"
    using attempts_follow_the_document [where html = ex_two_days and out = "[]"
                                          and s = "document ex_two_days"] h
    by blast
  from r have r1: "sorted_wrt (<) (map (fst \<circ> snd) (attempts ex_two_days))"
    by (rule conjunct1)
  from r have r2: "distinct (map (fst \<circ> snd) (attempts ex_two_days))"
    by (rule conjunct2)
  show ?thesis
    using h v r1 r2 w by (intro conjI)
qed

text \<open>
  C8, as stated, fails: with a day section inside a day section, the one container of the
  document is attempted once for each of the two sections, and its record is returned twice,
  under two dates.
\<close>

theorem nested_day_sections_counterexample:
  "map fst (containers ex_nested_days) = [[0, 0, 0]]
   \<and> map (fst \<circ> snd) (attempts ex_nested_days) = [[0, 0, 0], [0, 0, 0]]
   \<and> map date (fst (parse_games_html_with_dates_soup (document ex_nested_days) []))
       = [Some ''2/15/2026'', Some ''2/16/2026'']
   \<and> map home_team (fst (parse_games_html_with_dates_soup (document ex_nested_days) []))
       = [''Team A'', ''Team A'']"
  by code_simp

section \<open>Containers without a team\<close>

lemma built_with_dates_None:
  "built (game_with_dates d) g = None \<longleftrightarrow> skipped_with_dates (snd g)"
  by (auto simp: built_def game_with_dates_def skipped_with_dates_def Let_def
           split: option.splits)

lemma built_simple_None:
  "built (game_simple d) g = None \<longleftrightarrow> skipped_simple (snd g)"
  by (auto simp: built_def game_simple_def skipped_simple_def Let_def split: option.splits)

text \<open>
  When no day section lies inside another and every container lies inside a day section,
  the extraction attempts of the multi-day entry point are the containers of the markup, each
  once, in document order.
\<close>

lemma attempts_are_containers:
  assumes apart: "day_sections_apart html" and inside: "containers_in_day_sections html"
  shows "map snd (attempts html) = containers html"
proof -
  let ?A = "map snd (attempts html)" and ?C = "containers html"
  have located: "node_at (snd (document html)) (fst a) = Some (snd a) \<and> matches div_match (snd a)"
    if "a \<in> set ?A" for a
    using that attempts_located [of html] by (auto simp: list_all_iff)
  have below: "fst a \<noteq> []" if "a \<in> set ?A" for a
  proof -
    from that obtain s where "a \<in> set (select div_match s)"
      by (auto simp: attempts_def)
    then obtain r where "r \<noteq> []" "fst a = fst s @ r"
      by (rule in_selectD)
    then show ?thesis by simp
  qed
  have sub: "set ?A \<subseteq> set ?C"
  proof
    fix a assume a: "a \<in> set ?A"
    have "fst a \<noteq> [] \<and> fst a = fst (document html) @ fst a
          \<and> node_at (snd (document html)) (fst a) = Some (snd a)"
      using located [OF a] below [OF a] by (simp add: document_def)
    with located [OF a] show "a \<in> set ?C"
      unfolding containers_def in_select [of a div_match "document html"] by blast
  qed
  have sup: "set ?C \<subseteq> set ?A"
  proof
    fix c assume "c \<in> set ?C"
    with inside obtain s where "s \<in> set (select div_gameday (document html))"
      "c \<in> set (select div_match s)"
      by (auto simp: containers_in_day_sections_def list_all_iff list_ex_iff)
    then have "(get_attr (snd s) ''gameday'', c) \<in> set (attempts html)"
      by (auto simp: attempts_def)
    then show "c \<in> set ?A" by force
  qed
  have sorted_A: "sorted_wrt (<) (map fst ?A)"
    using attempts_sorted [of html] apart by (simp add: day_sections_apart_def comp_def)
  have sorted_C: "sorted_wrt (<) (map fst ?C)"
    by (simp add: containers_def sorted_select)
  have "set ?A = set ?C"
    using sub sup by (rule subset_antisym)
  then have "set (map fst ?A) = set (map fst ?C)"
    by (simp only: set_map)
  with sorted_A sorted_C have paths: "map fst ?A = map fst ?C"
    using strict_sorted_equal by blast
  have "inj_on fst (set ?A \<union> set ?C)"
  proof (rule inj_onI)
    fix x y assume xy: "x \<in> set ?A \<union> set ?C" "y \<in> set ?A \<union> set ?C" "fst x = fst y"
    with sup have "x \<in> set ?A" "y \<in> set ?A" by auto
    with located xy(3) have "snd x = snd y"
      by (metis option.inject)
    with xy(3) show "x = y" by (rule prod_eqI)
  qed
  then have "(map fst ?A = map fst ?C) = (?A = ?C)"
    by (rule inj_on_map_eq_map)
  with paths show ?thesis
    by (simp only:)
qed

text \<open>
  C4, as the program has it. A container is left out exactly when it has no home team link
  or no away team link, at both entry points, and a record that is returned takes its team
  names from the text of the two links. At the single-day entry point the number of records
  returned is the number of containers of the markup minus the number of containers left out.
  At the multi-day entry point it is the number of extraction attempts minus the number of
  attempts left out, where an attempt is made for every container below a day section, once
  for each day section above it; when no day section lies inside another and every container
  lies inside a day section, that is the number of containers of the markup minus the number
  of containers left out.
\<close>

theorem containers_without_a_team_link_are_dropped:
  "length (fst (parse_games_html_with_dates_soup (document html) out)) =
     length (attempts html)
       - length (filter (\<lambda>a. skipped_with_dates (snd (snd a))) (attempts html))
   \<and> (day_sections_apart html \<and> containers_in_day_sections html \<longrightarrow>
        map snd (attempts html) = containers html
        \<and> length (fst (parse_games_html_with_dates_soup (document html) out)) =
            length (containers html)
              - length (filter (\<lambda>g. skipped_with_dates (snd g)) (containers html)))
   \<and> length (fst (parse_games_html_soup (document html) d out)) =
     length (containers html) - length (filter (\<lambda>g. skipped_simple (snd g)) (containers html))
   \<and> (game_with_dates cd g = Inr None \<longleftrightarrow> skipped_with_dates g)
   \<and> (game_simple cd g = Inr None \<longleftrightarrow> skipped_simple g)
   \<and> (game_with_dates cd g' = Inr (Some r) \<longrightarrow>
        team_elem ''iml-team-left'' ''teamHome'' g' \<noteq> None
        \<and> team_elem ''iml-team-right'' ''teamAway'' g' \<noteq> None
        \<and> Some (home_team r) = map_option get_text (team_elem ''iml-team-left'' ''teamHome'' g')
        \<and> Some (away_team r) = map_option get_text (team_elem ''iml-team-right'' ''teamAway'' g'))
   \<and> (game_simple cd g' = Inr (Some r) \<longrightarrow>
        select_one [by_class ''teamHome''] g' \<noteq> None
        \<and> select_one [by_class ''teamAway''] g' \<noteq> None
        \<and> Some (home_team r) = map_option get_text (select_one [by_class ''teamHome''] g')
        \<and> Some (away_team r) = map_option get_text (select_one [by_class ''teamAway''] g'))"
proof (intro conjI)
  show counted: "length (fst (parse_games_html_with_dates_soup (document html) out)) =
     length (attempts html)
       - length (filter (\<lambda>a. skipped_with_dates (snd (snd a))) (attempts html))"
    by (simp add: with_dates_attempts length_map_filter built_with_dates_None)
  show "day_sections_apart html \<and> containers_in_day_sections html \<longrightarrow>
        map snd (attempts html) = containers html
        \<and> length (fst (parse_games_html_with_dates_soup (document html) out)) =
            length (containers html)
              - length (filter (\<lambda>g. skipped_with_dates (snd g)) (containers html))"
  proof (intro impI conjI)
    assume h: "day_sections_apart html \<and> containers_in_day_sections html"
    then show same: "map snd (attempts html) = containers html"
      by (simp add: attempts_are_containers)
    have "length (attempts html) = length (containers html)"
      using same [symmetric] by simp
    moreover have "filter (\<lambda>g. skipped_with_dates (snd g)) (containers html)
                   = map snd (filter (\<lambda>a. skipped_with_dates (snd (snd a))) (attempts html))"
      unfolding same [symmetric] by (simp add: filter_map comp_def)
    then have "length (filter (\<lambda>g. skipped_with_dates (snd g)) (containers html))
                 = length (filter (\<lambda>a. skipped_with_dates (snd (snd a))) (attempts html))"
      by simp
    ultimately show "length (fst (parse_games_html_with_dates_soup (document html) out)) =
            length (containers html)
              - length (filter (\<lambda>g. skipped_with_dates (snd g)) (containers html))"
      using counted by simp
  qed
  show "length (fst (parse_games_html_soup (document html) d out)) =
     length (containers html) - length (filter (\<lambda>g. skipped_simple (snd g)) (containers html))"
    by (simp add: simple_games length_map_filter built_simple_None)
  show "game_with_dates cd g = Inr None \<longleftrightarrow> skipped_with_dates g"
    by (auto simp: game_with_dates_def skipped_with_dates_def Let_def split: option.splits)
  show "game_simple cd g = Inr None \<longleftrightarrow> skipped_simple g"
    by (auto simp: game_simple_def skipped_simple_def Let_def split: option.splits)
  show "game_with_dates cd g' = Inr (Some r) \<longrightarrow>
        team_elem ''iml-team-left'' ''teamHome'' g' \<noteq> None
        \<and> team_elem ''iml-team-right'' ''teamAway'' g' \<noteq> None
        \<and> Some (home_team r) = map_option get_text (team_elem ''iml-team-left'' ''teamHome'' g')
        \<and> Some (away_team r) = map_option get_text (team_elem ''iml-team-right'' ''teamAway'' g')"
    by (auto simp: game_with_dates_def Let_def split: option.splits)
  show "game_simple cd g' = Inr (Some r) \<longrightarrow>
        select_one [by_class ''teamHome''] g' \<noteq> None
        \<and> select_one [by_class ''teamAway''] g' \<noteq> None
        \<and> Some (home_team r) = map_option get_text (select_one [by_class ''teamHome''] g')
        \<and> Some (away_team r) = map_option get_text (select_one [by_class ''teamAway''] g')"
    by (auto simp: game_simple_def Let_def split: option.splits)
qed

theorem containers_without_a_team_link_are_dropped_witness:
  "day_sections_apart ex_two_days \<and> containers_in_day_sections ex_two_days
   \<and> map fst (containers ex_two_days) = [[0, 0], [0, 1], [1, 0]]
   \<and> map snd (attempts ex_two_days) = containers ex_two_days
   \<and> length (filter (\<lambda>g. skipped_with_dates (snd g)) (containers ex_two_days)) = 1
   \<and> length (fst (parse_games_html_with_dates_soup (document ex_two_days) [])) = 2
   \<and> length (fst (parse_games_html_soup (document ex_two_days) None [])) = 2
   \<and> game_with_dates None ex_homeless = Inr None
   \<and> skipped_with_dates ex_homeless \<and> skipped_simple ex_homeless
   \<and> game_with_dates (Some ''2/15/2026'') ex_defaulted
       = Inr (Some (ex_record\<lparr>status := ''forfeit''\<rparr>))
   \<and> game_simple (Some ''2/15/2026'') ex_defaulted = Inr (Some ex_record)
   \<and> team_elem ''iml-team-left'' ''teamHome'' ex_defaulted \<noteq> None
   \<and> select_one [by_class ''teamAway''] ex_defaulted \<noteq> None"
proof -
  have a: "day_sections_apart ex_two_days"
    by code_simp
  have i: "containers_in_day_sections ex_two_days"
    by code_simp
  have p: "map fst (containers ex_two_days) = [[0, 0], [0, 1], [1, 0]]"
    by code_simp
  have n': "length (containers ex_two_days) = 3"
    by code_simp
  have k: "length (filter (\<lambda>g. skipped_with_dates (snd g)) (containers ex_two_days)) = 1"
    by code_simp
  have k': "length (filter (\<lambda>g. skipped_simple (snd g)) (containers ex_two_days)) = 1"
    by code_simp
  have s: "game_with_dates None ex_homeless = Inr None"
    by code_simp
  have s': "game_simple None ex_homeless = Inr None"
    by code_simp
  note dropped = containers_without_a_team_link_are_dropped
            [where html = ex_two_days and out = "[]" and d = None and cd = None
               and g = ex_homeless]
  have b: "game_with_dates (Some ''2/15/2026'') ex_defaulted
             = Inr (Some (ex_record\<lparr>status := ''forfeit''\<rparr>))"
    by code_simp
  have b': "game_simple (Some ''2/15/2026'') ex_defaulted = Inr (Some ex_record)"
    by code_simp
  have t: "team_elem ''iml-team-left'' ''teamHome'' ex_defaulted \<noteq> None"
    using containers_without_a_team_link_are_dropped
            [where cd = "Some ''2/15/2026''" and g' = ex_defaulted
               and r = "ex_record\<lparr>status := ''forfeit''\<rparr>"] b
    by blast
  have t': "select_one [by_class ''teamAway''] ex_defaulted \<noteq> None"
    using containers_without_a_team_link_are_dropped
            [where cd = "Some ''2/15/2026''" and g' = ex_defaulted and r = ex_record] b'
    by blast
  have m: "map snd (attempts ex_two_days) = containers ex_two_days"
    using dropped a i by blast
  have "length (fst (parse_games_html_with_dates_soup (document ex_two_days) [])) =
          length (containers ex_two_days)
            - length (filter (\<lambda>g. skipped_with_dates (snd g)) (containers ex_two_days))"
    using dropped a i by blast
  then have l: "length (fst (parse_games_html_with_dates_soup (document ex_two_days) [])) = 2"
    using n' k by simp
  have l': "length (fst (parse_games_html_soup (document ex_two_days) None [])) = 2"
    using dropped n' k' by simp
  have w: "skipped_with_dates ex_homeless"
    using dropped s by blast
  have w': "skipped_simple ex_homeless"
    using dropped s' by blast
  show ?thesis
    using a i p m k l l' s w w' b b' t t' by (intro conjI)
qed

text \<open>
  C4, as stated, fails in three ways. A home team link with no text in it is a home team
  link, and the record is returned with an empty \<open>home_team\<close>, at both entry points. At the
  multi-day entry point a container outside every day section is not attempted: one
  container, none left out, no record. And a container in a day section that lies inside
  another is attempted twice: one container, none left out, two records.
\<close>

theorem team_name_and_count_counterexample:
  "map home_team
     (fst (parse_games_html_with_dates_soup (document [ex_day ''2/15/2026'' [ex_nameless]]) []))
     = [[]]
   \<and> map home_team (fst (parse_games_html_soup (document [ex_nameless]) (Some ''2/15/2026'') []))
       = [[]]
   \<and> length (containers [ex_defaulted]) = 1
   \<and> filter (\<lambda>g. skipped_with_dates (snd g)) (containers [ex_defaulted]) = []
   \<and> fst (parse_games_html_with_dates_soup (document [ex_defaulted]) []) = []
   \<and> length (containers ex_nested_days) = 1
   \<and> filter (\<lambda>g. skipped_with_dates (snd g)) (containers ex_nested_days) = []
   \<and> length (fst (parse_games_html_with_dates_soup (document ex_nested_days) [])) = 2"
  by code_simp

end
